theory Spec2Isabelle
  imports Complex_Main "HOL-Library.AList" "HOL-Library.Char_ord" "HOL-Library.List_Lexorder"
begin

section \<open>Strings\<close>

text \<open>
  JavaScript strings are lists of characters here. \<open>s.startsWith(p)\<close>, \<open>s.endsWith(p)\<close>;
  \<open>s.substring(n)\<close> is \<open>drop n s\<close>; \<open>s.trim()\<close> removes the ASCII white space at both ends (the other
  white space of Unicode is not modelled);
  \<open>s.slice(1, -1)\<close> drops the first and the last character; \<open>s.indexOf(c)\<close> is \<open>None\<close>
  for \<open>-1\<close>; \<open>s.split(c)\<close> always has at least one piece.
\<close>

definition startsWith :: "string \<Rightarrow> string \<Rightarrow> bool" where
  "startsWith s p = (take (length p) s = p)"


definition is_space :: "char \<Rightarrow> bool" where
  "is_space c = (c \<in> {CHR '' '', CHR 0x09, CHR 0x0A, CHR 0x0B, CHR 0x0C, CHR 0x0D})"

definition trim :: "string \<Rightarrow> string" where
  "trim s = rev (dropWhile is_space (rev (dropWhile is_space s)))"




fun join_with :: "string \<Rightarrow> string list \<Rightarrow> string" where
  "join_with sep [] = []"
| "join_with sep [x] = x"
| "join_with sep (x # y # ys) = x @ sep @ join_with sep (y # ys)"

text \<open>\<open>String(n)\<close> for an integer \<open>n\<close>: its decimal digits, after a minus sign when it
  is negative.\<close>

definition digit_char :: "nat \<Rightarrow> char" where
  "digit_char d = ''0123456789'' ! d"

function show_nat :: "nat \<Rightarrow> string" where
  "show_nat n = (if n < 10 then [digit_char n] else show_nat (n div 10) @ [digit_char (n mod 10)])"
  by pat_completeness auto
termination
  by (relation "measure id") auto

declare show_nat.simps [simp del]

definition show_int :: "int \<Rightarrow> string" where
  "show_int i = (if i < 0 then ''-'' @ show_nat (nat (- i)) else show_nat (nat i))"

section \<open>JSON documents\<close>

text \<open>
  The bridge keeps all of its state in JSON files and receives JSON payloads. A parsed
  document is a value of \<open>json\<close>. An object is an association list in insertion order;
  \<open>JSON.parse\<close> never yields an object with a repeated key, which \<open>wf_json\<close> records.
  Numbers are modelled as integers (timestamps and token counts are integers).
\<close>

datatype json =
    JNull
  | JBool bool
  | JNum int
  | JStr string
  | JArr "json list"
  | JObj "(string \<times> json) list"

text \<open>JavaScript truthiness of a parsed value (\<open>!!v\<close>).\<close>

fun truthy :: "json \<Rightarrow> bool" where
  "truthy JNull = False"
| "truthy (JBool b) = b"
| "truthy (JNum n) = (n \<noteq> 0)"
| "truthy (JStr s) = (s \<noteq> [])"
| "truthy (JArr xs) = True"
| "truthy (JObj kvs) = True"

fun wf_json :: "json \<Rightarrow> bool" where
  "wf_json (JArr xs) = list_all wf_json xs"
| "wf_json (JObj kvs) = (distinct (map fst kvs) \<and> list_all (\<lambda>kv. wf_json (snd kv)) kvs)"
| "wf_json v = True"

text \<open>
  \<open>(v && typeof v === 'object') ? v : {}\<close> followed by \<open>Object.entries\<close> or a spread:
  the entries of an object, the indexed elements of an array, nothing for any other
  value.
\<close>

fun object_entries :: "json \<Rightarrow> (string \<times> json) list" where
  "object_entries (JObj kvs) = kvs"
| "object_entries (JArr xs) = zip (map show_nat [0..<length xs]) xs"
| "object_entries v = []"

text \<open>\<open>{ ...a, ...b }\<close>: the entries of \<open>a\<close>, each entry of \<open>b\<close> assigned in turn.\<close>

definition spread :: "(string \<times> json) list \<Rightarrow> (string \<times> json) list \<Rightarrow> (string \<times> json) list" where
  "spread a b = foldl (\<lambda>acc kv. AList.update (fst kv) (snd kv) acc) a b"

section \<open>Inherited properties\<close>

text \<open>
  An object made by a literal, by \<open>JSON.parse\<close> or by a spread has \<open>Object.prototype\<close>
  as its prototype. A read \<open>obj[key]\<close> with a computed key finds an own property first
  and a member of \<open>Object.prototype\<close> otherwise. \<open>proto_names\<close> are the names of those
  members (\<open>Object.getOwnPropertyNames(Object.prototype)\<close> in Node): all of them
  functions, except \<open>__proto__\<close>, an accessor that reads as \<open>Object.prototype\<close> itself.
  What such a read finds is truthy in every case.
\<close>

definition proto_names :: "string list" where
  "proto_names =
     [''constructor'', ''__defineGetter__'', ''__defineSetter__'', ''hasOwnProperty'',
      ''__lookupGetter__'', ''__lookupSetter__'', ''isPrototypeOf'', ''propertyIsEnumerable'',
      ''toString'', ''valueOf'', ''__proto__'', ''toLocaleString'']"

datatype lookup = Own json | Inherited | Absent

definition js_get :: "(string \<times> json) list \<Rightarrow> string \<Rightarrow> lookup" where
  "js_get obj key =
     (case map_of obj key of
        Some v \<Rightarrow> Own v
      | None \<Rightarrow> if key \<in> set proto_names then Inherited else Absent)"

text \<open>\<open>!!obj[key]\<close>.\<close>

fun found_truthy :: "lookup \<Rightarrow> bool" where
  "found_truthy (Own v) = truthy v"
| "found_truthy Inherited = True"
| "found_truthy Absent = False"

text \<open>
  The prototype of an object the program assigns to under computed keys: at first
  \<open>Object.prototype\<close>; an assignment \<open>obj['__proto__'] = v\<close> that reaches the accessor
  replaces it by \<open>v\<close> when \<open>v\<close> is an object or an array, removes it when \<open>v\<close> is \<open>null\<close>,
  and does nothing for any other \<open>v\<close>. In no case does it make an own property.
\<close>

datatype prototype = ObjectPrototype | PrototypeValue json | NoPrototype

fun set_prototype :: "json \<Rightarrow> prototype \<Rightarrow> prototype" where
  "set_prototype (JObj kvs) proto = PrototypeValue (JObj kvs)"
| "set_prototype (JArr xs) proto = PrototypeValue (JArr xs)"
| "set_prototype JNull proto = NoPrototype"
| "set_prototype v proto = proto"

text \<open>
  The assignment reaches the accessor when neither the object nor a replaced
  prototype has an own property \<open>__proto__\<close> (\<open>JSON.parse\<close> makes one for a key of that
  name) and the prototype has not been removed.
\<close>

fun reaches_accessor :: "(string \<times> json) list \<Rightarrow> prototype \<Rightarrow> bool" where
  "reaches_accessor obj ObjectPrototype = (map_of obj ''__proto__'' = None)"
| "reaches_accessor obj (PrototypeValue (JObj p)) =
     (map_of obj ''__proto__'' = None \<and> map_of p ''__proto__'' = None)"
| "reaches_accessor obj (PrototypeValue v) = (map_of obj ''__proto__'' = None)"
| "reaches_accessor obj NoPrototype = False"

text \<open>\<open>obj.name\<close> for a fixed name that no member of \<open>Object.prototype\<close> has: the own
  property, or that of a replaced prototype.\<close>

fun read_through :: "(string \<times> json) list \<Rightarrow> prototype \<Rightarrow> string \<Rightarrow> json option" where
  "read_through obj (PrototypeValue (JObj p)) name =
     (case map_of obj name of Some v \<Rightarrow> Some v | None \<Rightarrow> map_of p name)"
| "read_through obj proto name = map_of obj name"

section \<open>Merging provider settings (server.js, mergeProviderSettingsIntoClaudeSettings)\<close>

text \<open>
  One turn of the loop over \<open>Object.entries(incoming)\<close>, for a key that is assigned as
  an own property: an \<open>env\<close> entry whose value is an object that is not an array is
  merged into \<open>next.env\<close> (when that is an object; starting from \<open>{}\<close> otherwise), every
  other entry is assigned. \<open>env\<close> is what \<open>next.env\<close> reads.
\<close>

fun merge_entry :: "json option \<Rightarrow> (string \<times> json) list \<Rightarrow> string \<times> json \<Rightarrow> (string \<times> json) list" where
  "merge_entry env next (key, JObj v) =
     (if key = ''env''
      then let baseEnv = (case env of Some e \<Rightarrow> object_entries e | None \<Rightarrow> [])
           in AList.update ''env'' (JObj (spread baseEnv v)) next
      else AList.update key (JObj v) next)"
| "merge_entry env next (key, value) = AList.update key value next"

text \<open>
  One turn of the loop for any key: \<open>next\<close> with its prototype, before and after.
  \<open>next['__proto__'] = value\<close> goes to the accessor when it reaches it.
\<close>

definition merge_step ::
  "(string \<times> json) list \<times> prototype \<Rightarrow> string \<times> json \<Rightarrow> (string \<times> json) list \<times> prototype" where
  "merge_step st kv =
     (let next = fst st; proto = snd st in
      if fst kv = ''__proto__'' \<and> reaches_accessor next proto
      then (next, set_prototype (snd kv) proto)
      else (merge_entry (read_through next proto ''env'') next kv, proto))"

text \<open>A turn for a key that is not \<open>__proto__\<close>, while the prototype is
  \<open>Object.prototype\<close>: \<open>next.env\<close> is the own property.\<close>

definition own_step :: "(string \<times> json) list \<Rightarrow> string \<times> json \<Rightarrow> (string \<times> json) list" where
  "own_step next kv = merge_entry (map_of next ''env'') next kv"

text \<open>The own properties of the result, which is what is written when the result is
  saved as JSON.\<close>

definition mergeProviderSettingsIntoClaudeSettings :: "json \<Rightarrow> json \<Rightarrow> (string \<times> json) list" where
  "mergeProviderSettingsIntoClaudeSettings baseSettings providerSettings =
     fst (foldl merge_step (object_entries baseSettings, ObjectPrototype)
            (object_entries providerSettings))"

text \<open>A settings document: a JSON object, its keys unique at every level.\<close>

fun is_settings_doc :: "json \<Rightarrow> bool" where
  "is_settings_doc (JObj kvs) = wf_json (JObj kvs)"
| "is_settings_doc v = False"

text \<open>The value one turn of the loop stores under \<open>key\<close>.\<close>

definition merged_value :: "(string \<times> json) list \<Rightarrow> string \<Rightarrow> json \<Rightarrow> json" where
  "merged_value next key v =
     (case v of
        JObj e \<Rightarrow> if key = ''env''
                  then JObj (spread (case map_of next ''env'' of Some b \<Rightarrow> object_entries b | None \<Rightarrow> []) e)
                  else v
      | _ \<Rightarrow> v)"

section \<open>Message-type normalization (server.js, normalizeMessageType)\<close>

definition typeMap :: "(string \<times> string) list" where
  "typeMap =
    [(''send_message'', ''sendMessage''),
     (''send_message_with_attachments'', ''sendMessageWithAttachments''),
     (''get_history'', ''getHistory''),
     (''load_history_data'', ''getHistory''),
     (''load_session'', ''loadSession''),
     (''delete_session'', ''deleteSession''),
     (''create_new_session'', ''createNewSession''),
     (''interrupt_session'', ''interruptSession''),
     (''export_session'', ''exportSession''),
     (''toggle_favorite'', ''toggleFavorite''),
     (''update_title'', ''updateTitle''),
     (''create_new_tab'', ''createNewTab''),
     (''get_settings'', ''getSettings''),
     (''update_settings'', ''updateSettings''),
     (''get_streaming_enabled'', ''getStreamingEnabled''),
     (''set_streaming_enabled'', ''setStreamingEnabled''),
     (''get_send_shortcut'', ''getSendShortcut''),
     (''set_send_shortcut'', ''setSendShortcut''),
     (''get_thinking_enabled'', ''getThinkingEnabled''),
     (''set_thinking_enabled'', ''setThinkingEnabled''),
     (''get_provider_config'', ''getProviderConfig''),
     (''update_provider_config'', ''updateProviderConfig''),
     (''get_current_claude_config'', ''getCurrentClaudeConfig''),
     (''update_current_claude_config'', ''updateCurrentClaudeConfig''),
     (''get_active_provider'', ''getActiveProvider''),
     (''set_active_provider'', ''setActiveProvider''),
     (''set_provider'', ''setProvider''),
     (''get_providers'', ''getProviders''),
     (''add_provider'', ''addProvider''),
     (''update_provider'', ''updateProvider''),
     (''switch_provider'', ''switchProvider''),
     (''delete_provider'', ''deleteProvider''),
     (''get_codex_providers'', ''getCodexProviders''),
     (''add_codex_provider'', ''addCodexProvider''),
     (''update_codex_provider'', ''updateCodexProvider''),
     (''switch_codex_provider'', ''switchCodexProvider''),
     (''delete_codex_provider'', ''deleteCodexProvider''),
     (''set_model'', ''setModel''),
     (''set_mode'', ''setMode''),
     (''set_reasoning_effort'', ''setReasoningEffort''),
     (''permission_response'', ''permissionResponse''),
     (''permission_decision'', ''permissionDecision''),
     (''ask_user_question_response'', ''askUserQuestionResponse''),
     (''plan_approval_response'', ''planApprovalResponse''),
     (''get_mcp_servers'', ''getMcpServers''),
     (''add_mcp_server'', ''addMcpServer''),
     (''update_mcp_server'', ''updateMcpServer''),
     (''delete_mcp_server'', ''deleteMcpServer''),
     (''toggle_mcp_server'', ''toggleMcpServer''),
     (''get_mcp_server_status'', ''getMcpServerStatus''),
     (''get_codex_mcp_servers'', ''getCodexMcpServers''),
     (''add_codex_mcp_server'', ''addCodexMcpServer''),
     (''update_codex_mcp_server'', ''updateCodexMcpServer''),
     (''delete_codex_mcp_server'', ''deleteCodexMcpServer''),
     (''toggle_codex_mcp_server'', ''toggleCodexMcpServer''),
     (''get_global_mcp_servers'', ''getMcpServers''),
     (''add_global_mcp_server'', ''addMcpServer''),
     (''update_global_mcp_server'', ''updateMcpServer''),
     (''delete_global_mcp_server'', ''deleteMcpServer''),
     (''toggle_global_mcp_server'', ''toggleMcpServer''),
     (''get_skills'', ''getSkills''),
     (''get_all_skills'', ''getSkills''),
     (''import_skill'', ''importSkill''),
     (''open_skill'', ''openSkill''),
     (''delete_skill'', ''deleteSkill''),
     (''toggle_skill'', ''toggleSkill''),
     (''get_agents'', ''getAgents''),
     (''get_selected_agent'', ''getSelectedAgent''),
     (''set_selected_agent'', ''setSelectedAgent''),
     (''add_agent'', ''addAgent''),
     (''update_agent'', ''updateAgent''),
     (''delete_agent'', ''deleteAgent''),
     (''get_dependencies'', ''getDependencies''),
     (''get_dependency_status'', ''getDependencies''),
     (''get_sdk_status'', ''getSdkStatus''),
     (''install_dependency'', ''installDependency''),
     (''uninstall_dependency'', ''uninstallDependency''),
     (''check_node_environment'', ''checkNodeEnvironment''),
     (''get_usage_statistics'', ''getUsageStatistics''),
     (''open_file'', ''openFile''),
     (''open_browser'', ''openBrowser''),
     (''refresh_file'', ''refreshFile''),
     (''show_diff'', ''showDiff''),
     (''show_multi_edit_diff'', ''showMultiEditDiff''),
     (''rewind_files'', ''rewindFiles''),
     (''list_files'', ''listFiles''),
     (''save_json'', ''saveJson''),
     (''frontend_ready'', ''frontendReady''),
     (''refresh_slash_commands'', ''refreshSlashCommands''),
     (''get_node_path'', ''getNodePath''),
     (''set_node_path'', ''setNodePath''),
     (''get_working_directory'', ''getWorkingDirectory''),
     (''set_working_directory'', ''setWorkingDirectory''),
     (''get_editor_font_config'', ''getEditorFontConfig''),
     (''open_file_chooser_for_cc_switch'', ''openFileChooserForCcSwitch''),
     (''save_imported_providers'', ''saveImportedProviders''),
     (''preview_cc_switch_import'', ''previewCcSwitchImport'')]"

text \<open>
  What \<open>normalizeMessageType\<close> takes and returns: a string, or a member of
  \<open>Object.prototype\<close> (a function, or for \<open>__proto__\<close> the prototype itself), which is what
  \<open>typeMap[type]\<close> reads for a string that names one, \<open>typeMap\<close> being an object literal.
\<close>

datatype type_value = Name string | Member string

text \<open>
  \<open>typeMap[type] || type\<close>: the table entry when there is one (none is the empty
  string), an inherited member when the string names one, the argument itself
  otherwise. A member used as a key reads as its source text (\<open>function toString() {
  [native code] }\<close>, or \<open>[object Object]\<close>), which names nothing: it is returned as it is.
\<close>

fun normalizeMessageType :: "type_value \<Rightarrow> type_value" where
  "normalizeMessageType (Name t) =
     (case map_of typeMap t of
        Some v \<Rightarrow> if v \<noteq> [] then Name v else Name t
      | None \<Rightarrow> if t \<in> set proto_names then Member t else Name t)"
| "normalizeMessageType (Member m) = Member m"

section \<open>The bridge supervisor (BridgeManager)\<close>

text \<open>
  The supervisor's fields, and what it has done so far: the delay of every restart timer
  it has set, the timers that have not fired yet, how many child processes it has
  spawned, and how many times it has shown the failure notification of the exit
  handler. \<open>proc\<close> is \<open>_process\<close>: \<open>None\<close> for \<open>null\<close>, otherwise the number of the child
  process the field refers to (which may already have exited).
\<close>

record bridge =
  proc :: "nat option"
  isRunning :: bool
  restartCount :: nat
  spawned :: nat
  pending :: "nat list"
  delays :: "nat list"
  errorsShown :: nat

definition maxRestarts :: nat where
  "maxRestarts = 3"

definition bridge_init :: bridge where
  "bridge_init = \<lparr> proc = None, isRunning = False, restartCount = 0, spawned = 0,
                   pending = [], delays = [], errorsShown = 0 \<rparr>"

text \<open>
  \<open>start()\<close>: nothing when already running; otherwise a new child is spawned, the
  listeners are attached, and \<open>_isRunning\<close> and \<open>_restartCount\<close> are set.
\<close>

definition start :: "bridge \<Rightarrow> bridge" where
  "start b =
     (if isRunning b then b
      else b \<lparr> proc := Some (spawned b), spawned := Suc (spawned b),
               isRunning := True, restartCount := 0 \<rparr>)"

text \<open>
  The \<open>exit\<close> listener, run with the exit code of a child (\<open>None\<close> for a child ended by a
  signal, whose code is \<open>null\<close>). A restart is a timer that will call \<open>start()\<close> after
  \<open>1000 * _restartCount\<close> milliseconds.
\<close>

definition on_exit :: "int option \<Rightarrow> bridge \<Rightarrow> bridge" where
  "on_exit code b =
     (let b1 = b \<lparr> isRunning := False \<rparr> in
      if code \<noteq> Some 0 \<and> restartCount b1 < maxRestarts then
        (let n = Suc (restartCount b1) in
         b1 \<lparr> restartCount := n, pending := pending b1 @ [1000 * n],
              delays := delays b1 @ [1000 * n] \<rparr>)
      else if restartCount b1 \<ge> maxRestarts then
        b1 \<lparr> errorsShown := Suc (errorsShown b1) \<rparr>
      else b1)"

text \<open>The oldest pending restart timer fires: its callback calls \<open>start()\<close>.\<close>

definition on_timer :: "bridge \<Rightarrow> bridge" where
  "on_timer b =
     (case pending b of
        [] \<Rightarrow> b
      | d # ds \<Rightarrow> start (b \<lparr> pending := ds \<rparr>))"

text \<open>\<open>stop()\<close>: only when \<open>_process\<close> is set. No timer is cleared.\<close>

definition stop :: "bridge \<Rightarrow> bridge" where
  "stop b =
     (case proc b of
        None \<Rightarrow> b
      | Some p \<Rightarrow> b \<lparr> restartCount := maxRestarts, proc := None, isRunning := False \<rparr>)"

text \<open>\<open>restart()\<close>.\<close>

definition restart :: "bridge \<Rightarrow> bridge" where
  "restart b = start ((stop b) \<lparr> restartCount := 0 \<rparr>)"

text \<open>What happens to a supervisor, in the order it happens.\<close>

datatype bridge_event = Start | Stop | Restart | Exit "int option" | Timer

fun bridge_step :: "bridge \<Rightarrow> bridge_event \<Rightarrow> bridge" where
  "bridge_step b Start = start b"
| "bridge_step b Stop = stop b"
| "bridge_step b Restart = restart b"
| "bridge_step b (Exit code) = on_exit code b"
| "bridge_step b Timer = on_timer b"

definition bridge_run :: "bridge_event list \<Rightarrow> bridge" where
  "bridge_run evs = foldl bridge_step bridge_init evs"

text \<open>
  A child that crashes \<open>n\<close> times in a row: each time it exits with code 1 and the restart
  timer set by the exit handler then fires.
\<close>

definition crash_cycles :: "nat \<Rightarrow> bridge_event list" where
  "crash_cycles n = concat (replicate n [Exit (Some 1), Timer])"

section \<open>Outbound envelopes and the configuration files (server.js)\<close>

text \<open>
  \<open>sendToHost(type, content, requestId)\<close> prints one envelope on standard output;
  a handler's reply is the list of envelopes it has sent, in order.
\<close>

record envelope =
  etype :: string
  payload :: json
  requestId :: "string option"

definition sendToHost :: "string \<Rightarrow> json \<Rightarrow> string option \<Rightarrow> envelope" where
  "sendToHost t c rid = \<lparr> etype = t, payload = c, requestId = rid \<rparr>"

text \<open>\<open>sendError(new Error(message), requestId)\<close>.\<close>

definition sendError :: "string \<Rightarrow> string option \<Rightarrow> envelope" where
  "sendError message rid =
     sendToHost ''error'' (JObj [(''code'', JStr ''BRIDGE_ERROR''), (''message'', JStr message)]) rid"

text \<open>
  The files the handlers read and write. Each file of the \<open>.codemoss\<close> directory holds a
  JSON object, since the program writes nothing else there; a file that is missing
  or unreadable reads as \<open>{}\<close> (\<open>loadJsonFile(file, {})\<close>), which is the empty list here.
  \<open>claudeSettingsFile\<close> is \<open>~/.claude/settings.json\<close>, which the Claude tool owns:
  \<open>None\<close> when \<open>readClaudeSettings()\<close> returns \<open>null\<close>. \<open>claudeProjects\<close> lists the project
  directories under \<open>~/.claude/projects\<close> with the names of their files. File-system calls
  are taken to succeed, and \<open>JSON.parse(JSON.stringify(v))\<close> to give \<open>v\<close> back.
\<close>

record disk =
  favoritesFile :: "(string \<times> json) list"
  titlesFile :: "(string \<times> json) list"
  settingsFile :: "(string \<times> json) list"
  configFile :: "(string \<times> json) list"
  providersFile :: "(string \<times> json) list"
  codexProvidersFile :: "(string \<times> json) list"
  claudeSettingsFile :: "json option"
  claudeProjects :: "(string \<times> string list) list"

text \<open>
  Reading a property by a fixed name (\<open>v?.name\<close>): an own property of an object;
  \<open>None\<close> stands for \<open>undefined\<close>. None of the names read this way is an array index or
  \<open>length\<close>, so an array, like a primitive value, has no such property.
\<close>

fun get_prop :: "json \<Rightarrow> string \<Rightarrow> json option" where
  "get_prop (JObj kvs) k = map_of kvs k"
| "get_prop v k = None"

text \<open>\<open>String(v)\<close>, which also is how a value used as a property key is read;
  \<open>join_with sep xs\<close> is \<open>xs.join(sep)\<close>. A number is an integer here and is written in
  decimal digits, as JavaScript does below \<open>10^21\<close>.\<close>

fun js_String :: "json \<Rightarrow> string" where
  "js_String JNull = ''null''"
| "js_String (JBool b) = (if b then ''true'' else ''false'')"
| "js_String (JNum n) = show_int n"
| "js_String (JStr s) = s"
| "js_String (JArr xs) = join_with '','' (map (\<lambda>x. if x = JNull then [] else js_String x) xs)"
| "js_String (JObj kvs) = ''[object Object]''"

text \<open>\<open>(typeof content === 'string' ? content : content?.sessionId) || null\<close>.\<close>

definition sessionIdOf :: "json \<Rightarrow> json" where
  "sessionIdOf content =
     (let v = (case content of
                 JStr s \<Rightarrow> JStr s
               | _ \<Rightarrow> (case get_prop content ''sessionId'' of Some w \<Rightarrow> w | None \<Rightarrow> JNull))
      in if truthy v then v else JNull)"

text \<open>\<open>!!store?.[sessionId]\<close>: the store has a truthy entry under the key.\<close>

definition has_truthy :: "(string \<times> json) list \<Rightarrow> string \<Rightarrow> bool" where
  "has_truthy store k = (case map_of store k of Some v \<Rightarrow> truthy v | None \<Rightarrow> False)"

subsection \<open>handleToggleFavorite\<close>

text \<open>
  \<open>currentlyFavorited\<close> is \<open>!!favorites?.[sessionId]\<close>, which also finds what the store
  inherits. \<open>delete\<close> removes an own property only; the assignment is made when the read
  found nothing truthy, so it makes or changes an own property.
\<close>

definition handleToggleFavorite :: "int \<Rightarrow> json \<Rightarrow> string option \<Rightarrow> disk \<Rightarrow> disk \<times> envelope list" where
  "handleToggleFavorite now content rid d =
     (let sessionId = sessionIdOf content in
      if \<not> truthy sessionId then (d, [sendError ''Session not found'' rid])
      else
        let key = js_String sessionId;
            favorites = favoritesFile d;
            currentlyFavorited = found_truthy (js_get favorites key);
            favorites' = (if currentlyFavorited then AList.delete key favorites
                          else AList.update key (JObj [(''favoritedAt'', JNum now)]) favorites)
        in (d \<lparr> favoritesFile := favorites' \<rparr>,
            [sendToHost ''favoriteToggled''
               (JObj [(''sessionId'', sessionId), (''favorite'', JBool (\<not> currentlyFavorited))]) rid]))"

subsection \<open>handleDeleteSession\<close>

text \<open>
  The loop over the project directories: the session's log is removed from the first
  directory that has it. The file is looked up by its name, \<open>sessionId + '.jsonl'\<close>; an
  id with path separators, which \<open>path.join\<close> would resolve to a file of another
  directory, is outside this model of the directories.
\<close>

fun unlink_first :: "string \<Rightarrow> (string \<times> string list) list \<Rightarrow> (string \<times> string list) list" where
  "unlink_first f [] = []"
| "unlink_first f ((dir, files) # ds) =
     (if f \<in> set files then (dir, removeAll f files) # ds
      else (dir, files) # unlink_first f ds)"

definition handleDeleteSession :: "json \<Rightarrow> string option \<Rightarrow> disk \<Rightarrow> disk \<times> envelope list" where
  "handleDeleteSession content rid d =
     (let sessionId = sessionIdOf content in
      if \<not> truthy sessionId then (d, [sendError ''Session not found'' rid])
      else
        let key = js_String sessionId;
            d1 = d \<lparr> claudeProjects := unlink_first (key @ ''.jsonl'') (claudeProjects d) \<rparr>;
            d2 = (if has_truthy (favoritesFile d1) key
                  then d1 \<lparr> favoritesFile := AList.delete key (favoritesFile d1) \<rparr> else d1);
            d3 = (if has_truthy (titlesFile d2) key
                  then d2 \<lparr> titlesFile := AList.delete key (titlesFile d2) \<rparr> else d2)
        in (d3, [sendToHost ''sessionDeleted'' (JObj [(''sessionId'', sessionId)]) rid]))"

subsection \<open>The Claude provider store\<close>

definition localProviderId :: string where
  "localProviderId = ''__local_settings_json__''"

text \<open>User-visible texts, as UTF-8 bytes.\<close>

definition text_local_name :: string where
  "text_local_name = [CHR 0xE6, CHR 0x9C, CHR 0xAC, CHR 0xE5, CHR 0x9C, CHR 0xB0] @ '' settings.json''"

definition text_provider_not_found :: string where
  "text_provider_not_found = [CHR 0xE6, CHR 0x9C, CHR 0xAA, CHR 0xE6, CHR 0x89, CHR 0xBE, CHR 0xE5, CHR 0x88, CHR 0xB0, CHR 0xE4, CHR 0xBE, CHR 0x9B, CHR 0xE5, CHR 0xBA, CHR 0x94, CHR 0xE5, CHR 0x95, CHR 0x86] @ '': ''"

definition text_switch_synced :: string where
  "text_switch_synced = [CHR 0xE5, CHR 0x88, CHR 0x87, CHR 0xE6, CHR 0x8D, CHR 0xA2, CHR 0xE6, CHR 0x88, CHR 0x90, CHR 0xE5, CHR 0x8A, CHR 0x9F, CHR 0xEF, CHR 0xBC, CHR 0x9A, CHR 0xE5, CHR 0xB7, CHR 0xB2, CHR 0xE5, CHR 0x90, CHR 0x8C, CHR 0xE6, CHR 0xAD, CHR 0xA5, CHR 0xE5, CHR 0x88, CHR 0xB0] @ '' ~/.claude/settings.json''"

definition text_switched_to_local :: string where
  "text_switched_to_local = [CHR 0xE5, CHR 0xB7, CHR 0xB2, CHR 0xE5, CHR 0x88, CHR 0x87, CHR 0xE6, CHR 0x8D, CHR 0xA2, CHR 0xE5, CHR 0x88, CHR 0xB0, CHR 0xE6, CHR 0x9C, CHR 0xAC, CHR 0xE5, CHR 0x9C, CHR 0xB0] @ '' ~/.claude/settings.json '' @ [CHR 0xE9, CHR 0x85, CHR 0x8D, CHR 0xE7, CHR 0xBD, CHR 0xAE]"

definition text_fell_back_to_local :: string where
  "text_fell_back_to_local = [CHR 0xE5, CHR 0xB7, CHR 0xB2, CHR 0xE5, CHR 0x9B, CHR 0x9E, CHR 0xE9, CHR 0x80, CHR 0x80, CHR 0xE5, CHR 0x88, CHR 0xB0, CHR 0xE6, CHR 0x9C, CHR 0xAC, CHR 0xE5, CHR 0x9C, CHR 0xB0] @ '' settings.json '' @ [CHR 0xE9, CHR 0x85, CHR 0x8D, CHR 0xE7, CHR 0xBD, CHR 0xAE]"

text \<open>
  A section of the configuration (\<open>config.claude\<close>, \<open>config.claude.providers\<close>, ...) counts
  as present when it is a JSON object. JavaScript also lets an array through
  \<open>typeof v === 'object'\<close>, and then sets named properties on it that are lost when the
  file is written; an array in the place of a section is outside this model, and the
  properties below are stated for configurations without one (\<open>plain_sections\<close>).
\<close>

definition section_of :: "(string \<times> json) list \<Rightarrow> string \<Rightarrow> (string \<times> json) list option" where
  "section_of obj k = (case map_of obj k of Some (JObj s) \<Rightarrow> Some s | _ \<Rightarrow> None)"

definition no_array_at :: "(string \<times> json) list \<Rightarrow> string \<Rightarrow> bool" where
  "no_array_at obj k = (case map_of obj k of Some (JArr xs) \<Rightarrow> False | _ \<Rightarrow> True)"

definition plain_sections :: "(string \<times> json) list \<Rightarrow> bool" where
  "plain_sections cfg =
     (no_array_at cfg ''claude'' \<and> no_array_at cfg ''codex''
      \<and> (case section_of cfg ''claude'' of Some c \<Rightarrow> no_array_at c ''providers'' | None \<Rightarrow> True)
      \<and> (case section_of cfg ''codex'' of Some c \<Rightarrow> no_array_at c ''providers'' | None \<Rightarrow> True))"

text \<open>A value when it is a non-empty string (\<open>typeof v === 'string' && v ? v : null\<close>).\<close>

fun nonempty_string :: "json option \<Rightarrow> string option" where
  "nonempty_string (Some (JStr s)) = (if s \<noteq> [] then Some s else None)"
| "nonempty_string v = None"

text \<open>The three steps of \<open>ensureClaudeSection\<close> and \<open>ensureCodexSection\<close>: the section
  itself, its \<open>providers\<close> object, its \<open>current\<close> pointer.\<close>

definition section_or_empty :: "(string \<times> json) list \<Rightarrow> string \<Rightarrow> (string \<times> json) list" where
  "section_or_empty cfg name = (case section_of cfg name of Some c \<Rightarrow> c | None \<Rightarrow> [])"

definition ensure_providers :: "(string \<times> json) list \<Rightarrow> (string \<times> json) list" where
  "ensure_providers c =
     (case section_of c ''providers'' of
        Some p \<Rightarrow> c
      | None \<Rightarrow> AList.update ''providers'' (JObj []) c)"

text \<open>\<open>typeof current !== 'string' || !current\<close> for Claude.\<close>

definition ensure_claude_current :: "(string \<times> json) list \<Rightarrow> (string \<times> json) list" where
  "ensure_claude_current c =
     (case nonempty_string (map_of c ''current'') of
        Some s \<Rightarrow> c
      | None \<Rightarrow> AList.update ''current'' (JStr localProviderId) c)"

text \<open>\<open>typeof current !== 'string'\<close> for Codex.\<close>

definition ensure_codex_current :: "(string \<times> json) list \<Rightarrow> (string \<times> json) list" where
  "ensure_codex_current c =
     (case map_of c ''current'' of
        Some (JStr s) \<Rightarrow> c
      | _ \<Rightarrow> AList.update ''current'' (JStr []) c)"

definition ensureClaudeSection :: "(string \<times> json) list \<Rightarrow> (string \<times> json) list" where
  "ensureClaudeSection cfg =
     AList.update ''claude''
       (JObj (ensure_claude_current (ensure_providers (section_or_empty cfg ''claude'')))) cfg"

definition ensureCodexSection :: "(string \<times> json) list \<Rightarrow> (string \<times> json) list" where
  "ensureCodexSection cfg =
     AList.update ''codex''
       (JObj (ensure_codex_current (ensure_providers (section_or_empty cfg ''codex'')))) cfg"

text \<open>\<open>normalizeClaudeProviderEntry\<close> and \<open>normalizeCodexProviderEntry\<close> (the same body):
  \<open>{ ...base, id, createdAt }\<close>, where \<open>now\<close> is \<open>Date.now()\<close>.\<close>

definition normalizeProviderEntry :: "int \<Rightarrow> string \<Rightarrow> json \<Rightarrow> (string \<times> json) list" where
  "normalizeProviderEntry now ident provider =
     (let base = object_entries provider;
          createdAt = (case map_of base ''createdAt'' of Some (JNum n) \<Rightarrow> n | _ \<Rightarrow> now)
      in AList.update ''createdAt'' (JNum createdAt) (AList.update ''id'' (JStr ident) base))"

text \<open>The loop of \<open>getClaudeProvidersFromConfig\<close> and \<open>getCodexProvidersFromConfig\<close> over
  the entries of the providers object of an ensured section.\<close>

definition providers_list :: "int \<Rightarrow> (string \<times> json) list \<Rightarrow> (string \<times> json) list list" where
  "providers_list now providersObj =
     map (\<lambda>kv. normalizeProviderEntry now (fst kv) (snd kv))
         (filter (\<lambda>kv. fst kv \<noteq> []) providersObj)"

definition providers_of_section :: "(string \<times> json) list \<Rightarrow> string \<Rightarrow> (string \<times> json) list" where
  "providers_of_section cfg name =
     (case section_of cfg name of
        Some c \<Rightarrow> (case section_of c ''providers'' of Some p \<Rightarrow> p | None \<Rightarrow> [])
      | None \<Rightarrow> [])"

definition getClaudeProvidersFromConfig :: "int \<Rightarrow> (string \<times> json) list \<Rightarrow> (string \<times> json) list list" where
  "getClaudeProvidersFromConfig now cfg =
     providers_list now (providers_of_section (ensureClaudeSection cfg) ''claude'')"

definition getCodexProvidersFromConfig :: "int \<Rightarrow> (string \<times> json) list \<Rightarrow> (string \<times> json) list list" where
  "getCodexProvidersFromConfig now cfg =
     providers_list now (providers_of_section (ensureCodexSection cfg) ''codex'')"

text \<open>\<open>syncLegacyProviderFilesFromConfig\<close>: both legacy files are rewritten from the
  configuration.\<close>

definition syncLegacyProviderFilesFromConfig :: "int \<Rightarrow> (string \<times> json) list \<Rightarrow> disk \<Rightarrow> disk" where
  "syncLegacyProviderFilesFromConfig now cfg d =
     d \<lparr> providersFile :=
           [(''providers'', JArr (map JObj (getClaudeProvidersFromConfig now cfg)))],
         codexProvidersFile :=
           [(''providers'', JArr (map JObj (getCodexProvidersFromConfig now cfg)))] \<rparr>"

text \<open>\<open>config.claude.current\<close> of an ensured configuration, read and assigned.\<close>

definition claude_current :: "(string \<times> json) list \<Rightarrow> json option" where
  "claude_current cfg = (case section_of cfg ''claude'' of Some c \<Rightarrow> map_of c ''current'' | None \<Rightarrow> None)"

definition set_claude_current :: "json \<Rightarrow> (string \<times> json) list \<Rightarrow> (string \<times> json) list" where
  "set_claude_current v cfg =
     (case section_of cfg ''claude'' of
        Some c \<Rightarrow> AList.update ''claude'' (JObj (AList.update ''current'' v c)) cfg
      | None \<Rightarrow> cfg)"

text \<open>\<open>readClaudeSettings() || {}\<close>.\<close>

definition claude_settings_or_empty :: "disk \<Rightarrow> json" where
  "claude_settings_or_empty d =
     (case claudeSettingsFile d of Some v \<Rightarrow> if truthy v then v else JObj [] | None \<Rightarrow> JObj [])"

text \<open>\<open>extractClaudeEnvConfig\<close>: the pair \<open>(apiKey, baseUrl)\<close>.\<close>

definition extractClaudeEnvConfig :: "json \<Rightarrow> string \<times> string" where
  "extractClaudeEnvConfig settings =
     (let env = (case get_prop settings ''env'' of
                   Some (JObj e) \<Rightarrow> JObj e
                 | Some (JArr xs) \<Rightarrow> JArr xs
                 | _ \<Rightarrow> JObj []);
          apiKey = (case nonempty_string (get_prop env ''ANTHROPIC_AUTH_TOKEN'') of
                      Some t \<Rightarrow> t
                    | None \<Rightarrow> (case get_prop env ''ANTHROPIC_API_KEY'' of Some (JStr k) \<Rightarrow> k | _ \<Rightarrow> []));
          baseUrl = (case get_prop env ''ANTHROPIC_BASE_URL'' of Some (JStr u) \<Rightarrow> u | _ \<Rightarrow> [])
      in (apiKey, baseUrl))"

definition buildLocalProvider :: "json \<Rightarrow> json" where
  "buildLocalProvider settings =
     (let (apiKey, baseUrl) = extractClaudeEnvConfig settings in
      JObj [(''id'', JStr localProviderId), (''name'', JStr text_local_name),
            (''isActive'', JBool True), (''isLocalProvider'', JBool True),
            (''settingsConfig'', settings),
            (''apiKey'', JStr apiKey), (''baseUrl'', JStr baseUrl)])"

text \<open>
  \<open>getClaudeProvidersWithActiveFlag\<close>: the files after the call, \<open>activeId\<close>, and the
  provider list with the local entry first.
\<close>

definition getClaudeProvidersWithActiveFlag :: "int \<Rightarrow> disk \<Rightarrow> disk \<times> string \<times> json list" where
  "getClaudeProvidersWithActiveFlag now d =
     (let cfg = ensureClaudeSection (configFile d);
          activeFromConfig = nonempty_string (claude_current cfg);
          activeFromLegacy = nonempty_string (map_of (settingsFile d) ''activeClaudeProviderId'');
          activeId = (case activeFromConfig of
                        Some a \<Rightarrow> a
                      | None \<Rightarrow> (case activeFromLegacy of Some a \<Rightarrow> a | None \<Rightarrow> localProviderId));
          seed = (activeFromConfig = None \<and> activeFromLegacy \<noteq> None);
          cfg' = (if seed then set_claude_current (JStr activeId) cfg else cfg);
          d' = (if seed then syncLegacyProviderFilesFromConfig now cfg' (d \<lparr> configFile := cfg' \<rparr>) else d);
          providers = map (\<lambda>p. JObj (AList.update ''isActive'' (JBool (map_of p ''id'' = Some (JStr activeId))) p))
                          (getClaudeProvidersFromConfig now cfg');
          localEntry = JObj [(''id'', JStr localProviderId), (''name'', JStr text_local_name),
                             (''isActive'', JBool (activeId = localProviderId)),
                             (''isLocalProvider'', JBool True)]
      in (d', activeId, localEntry # providers))"

text \<open>\<open>handleGetActiveClaudeProvider\<close>; \<open>providers.find(...) || null\<close> is \<open>find_provider\<close>.\<close>

definition find_provider :: "string \<Rightarrow> json list \<Rightarrow> json" where
  "find_provider ident ps =
     (case find (\<lambda>p. get_prop p ''id'' = Some (JStr ident)) ps of Some p \<Rightarrow> p | None \<Rightarrow> JNull)"

definition handleGetActiveClaudeProvider :: "int \<Rightarrow> string option \<Rightarrow> disk \<Rightarrow> disk \<times> envelope list" where
  "handleGetActiveClaudeProvider now rid d =
     (let (d', activeId, providers) = getClaudeProvidersWithActiveFlag now d in
      if activeId = localProviderId
      then (d', [sendToHost ''activeProviderLoaded'' (buildLocalProvider (claude_settings_or_empty d')) rid])
      else (d', [sendToHost ''activeProviderLoaded'' (find_provider activeId providers) rid]))"

text \<open>\<open>handleGetCurrentClaudeConfig\<close>, which reads the active id from \<open>settings.json\<close>
  and the provider's name from the legacy providers file.\<close>

definition legacy_active_id :: "disk \<Rightarrow> string" where
  "legacy_active_id d =
     (case map_of (settingsFile d) ''activeClaudeProviderId'' of
        Some (JStr a) \<Rightarrow> a
      | _ \<Rightarrow> localProviderId)"

definition legacy_provider_name :: "disk \<Rightarrow> string \<Rightarrow> json" where
  "legacy_provider_name d activeId =
     (case map_of (providersFile d) ''providers'' of
        Some (JArr ps) \<Rightarrow>
          (case find (\<lambda>p. get_prop p ''id'' = Some (JStr activeId)) ps of
             Some p \<Rightarrow> (case get_prop p ''name'' of
                          Some n \<Rightarrow> if truthy n then n else JStr []
                        | None \<Rightarrow> JStr [])
           | None \<Rightarrow> JStr [])
      | _ \<Rightarrow> JStr [])"

definition handleGetCurrentClaudeConfig :: "string option \<Rightarrow> disk \<Rightarrow> envelope list" where
  "handleGetCurrentClaudeConfig rid d =
     (let (apiKey, baseUrl) = extractClaudeEnvConfig (claude_settings_or_empty d);
          activeId = legacy_active_id d
      in [sendToHost ''currentClaudeConfigLoaded''
            (JObj [(''apiKey'', JStr apiKey), (''baseUrl'', JStr baseUrl),
                   (''providerId'', JStr activeId),
                   (''providerName'', if activeId = localProviderId then JStr text_local_name
                                      else legacy_provider_name d activeId)]) rid])"

subsection \<open>handleSwitchClaudeProvider\<close>

text \<open>\<open>typeof content === 'string' ? content : (content && typeof content === 'object'
  ? content.id : null)\<close>; \<open>JNull\<close> also stands for \<open>undefined\<close>.\<close>

definition switch_id :: "json \<Rightarrow> json" where
  "switch_id content =
     (case content of
        JStr s \<Rightarrow> JStr s
      | _ \<Rightarrow> (case get_prop content ''id'' of Some v \<Rightarrow> v | None \<Rightarrow> JNull))"

text \<open>
  \<open>provider.settingsConfig || {}\<close> for what \<open>config.claude.providers[id]\<close> has found. A
  member of \<open>Object.prototype\<close> has no \<open>settingsConfig\<close>.
\<close>

fun settings_config_of :: "lookup \<Rightarrow> json" where
  "settings_config_of (Own provider) =
     (case get_prop provider ''settingsConfig'' of
        Some sc \<Rightarrow> if truthy sc then sc else JObj []
      | None \<Rightarrow> JObj [])"
| "settings_config_of found = JObj []"

definition handleSwitchClaudeProvider :: "int \<Rightarrow> json \<Rightarrow> string option \<Rightarrow> disk \<Rightarrow> disk \<times> envelope list" where
  "handleSwitchClaudeProvider now content rid d =
     (let ident = switch_id content in
      if \<not> truthy ident then (d, [sendError ''Missing provider id'' rid])
      else
        let cfg = set_claude_current ident (ensureClaudeSection (configFile d));
            d1 = syncLegacyProviderFilesFromConfig now cfg (d \<lparr> configFile := cfg \<rparr>);
            d2 = d1 \<lparr> settingsFile := AList.update ''activeClaudeProviderId'' ident (settingsFile d1) \<rparr>;
            (d3, out1) =
              (if ident \<noteq> JStr localProviderId then
                 (let found = js_get (providers_of_section cfg ''claude'') (js_String ident) in
                  if \<not> found_truthy found then
                    (d2, [sendToHost ''backend_notification''
                            (JObj [(''type'', JStr ''error''),
                                   (''message'', JStr (text_provider_not_found @ js_String ident))]) rid])
                  else
                    let next = mergeProviderSettingsIntoClaudeSettings (claude_settings_or_empty d2)
                                 (settings_config_of found)
                    in (d2 \<lparr> claudeSettingsFile := Some (JObj next) \<rparr>,
                        [sendToHost ''showSwitchSuccess'' (JObj [(''message'', JStr text_switch_synced)]) rid]))
               else (d2, [sendToHost ''showSwitchSuccess'' (JObj [(''message'', JStr text_switched_to_local)]) rid]));
            (d4, activeId, refreshed) = getClaudeProvidersWithActiveFlag now d3;
            out2 = [sendToHost ''providersLoaded'' (JArr refreshed) rid];
            out3 = handleGetCurrentClaudeConfig rid d4;
            (d5, out4) = handleGetActiveClaudeProvider now rid d4
        in (d5, out1 @ out2 @ out3 @ out4))"

subsection \<open>handleDeleteProvider\<close>

definition delete_claude_provider :: "string \<Rightarrow> (string \<times> json) list \<Rightarrow> (string \<times> json) list" where
  "delete_claude_provider ident cfg =
     (case section_of cfg ''claude'' of
        Some c \<Rightarrow> (case section_of c ''providers'' of
                     Some p \<Rightarrow> AList.update ''claude''
                                 (JObj (AList.update ''providers'' (JObj (AList.delete ident p)) c)) cfg
                   | None \<Rightarrow> cfg)
      | None \<Rightarrow> cfg)"

definition handleDeleteProvider :: "int \<Rightarrow> json \<Rightarrow> string option \<Rightarrow> disk \<Rightarrow> disk \<times> envelope list" where
  "handleDeleteProvider now content rid d =
     (case get_prop content ''id'' of
        Some (JStr ident) \<Rightarrow>
          (let cfg = delete_claude_provider ident (ensureClaudeSection (configFile d));
               activeId = (case nonempty_string (claude_current cfg) of
                             Some a \<Rightarrow> a
                           | None \<Rightarrow> legacy_active_id d);
               (d3, out1) =
                 (if activeId = ident then
                    let cfg' = set_claude_current (JStr localProviderId) cfg;
                        d1 = d \<lparr> settingsFile :=
                                   AList.update ''activeClaudeProviderId'' (JStr localProviderId) (settingsFile d) \<rparr>;
                        d2 = syncLegacyProviderFilesFromConfig now cfg' (d1 \<lparr> configFile := cfg' \<rparr>);
                        outA = [sendToHost ''showSwitchSuccess'' (JObj [(''message'', JStr text_fell_back_to_local)]) rid];
                        outB = handleGetCurrentClaudeConfig rid d2;
                        (d2', outC) = handleGetActiveClaudeProvider now rid d2
                    in (d2', outA @ outB @ outC)
                  else (syncLegacyProviderFilesFromConfig now cfg (d \<lparr> configFile := cfg \<rparr>), []));
               (d4, activeId', providers) = getClaudeProvidersWithActiveFlag now d3
           in (d4, out1 @ [sendToHost ''providersLoaded'' (JArr providers) rid]))
      | _ \<Rightarrow> (d, [sendError ''Invalid delete_provider payload'' rid]))"

text \<open>
  The stores as the handlers leave them: every entry a truthy value (the handlers store
  objects). \<open>stores_truthy\<close> holds of the empty stores and every handler below keeps it.
\<close>

definition all_truthy :: "(string \<times> json) list \<Rightarrow> bool" where
  "all_truthy store = list_all (\<lambda>kv. truthy (snd kv)) store"

section \<open>Usage statistics (server.js, processClaudeSessions and processCodexSessions)\<close>

text \<open>
  Token counts, session counts and timestamps are integers; costs and trends, which
  the program computes in double precision, are rationals here. \<open>dateKey\<close>, a
  parameter of the functions below, is \<open>new Date(timestamp).toISOString().slice(0, 10)\<close>,
  and \<open>now\<close> is \<open>Date.now()\<close>.
\<close>

record usageData =
  inputTokens :: int
  outputTokens :: int
  cacheWriteTokens :: int
  cacheReadTokens :: int
  totalTokens :: int

definition createUsageData :: usageData where
  "createUsageData = \<lparr> inputTokens = 0, outputTokens = 0, cacheWriteTokens = 0,
                         cacheReadTokens = 0, totalTokens = 0 \<rparr>"

record sessionSummary =
  sessionId :: string
  timestamp :: int
  model :: string
  usage :: usageData
  cost :: rat
  summary :: "string option"

record dailyUsageEntry =
  date :: string
  day_sessions :: int
  day_usage :: usageData
  day_cost :: rat
  modelsUsed :: "string list"

record modelStat =
  stat_model :: string
  totalCost :: rat
  stat_totalTokens :: int
  stat_inputTokens :: int
  stat_outputTokens :: int
  cacheCreationTokens :: int
  stat_cacheReadTokens :: int
  sessionCount :: int

record weekTotals =
  week_sessions :: int
  week_cost :: rat
  week_tokens :: int

record weekTrends =
  trend_sessions :: rat
  trend_cost :: rat
  trend_tokens :: rat

record weeklyComparisonData =
  currentWeek :: weekTotals
  lastWeek :: weekTotals
  trends :: weekTrends

record stats =
  projectPath :: string
  totalSessions :: int
  totalUsage :: usageData
  estimatedCost :: rat
  sessions :: "sessionSummary list"
  dailyUsage :: "dailyUsageEntry list"
  weeklyComparison :: weeklyComparisonData
  byModel :: "modelStat list"
  lastUpdated :: int

definition emptyWeek :: weekTotals where
  "emptyWeek = \<lparr> week_sessions = 0, week_cost = 0, week_tokens = 0 \<rparr>"

definition emptyTrends :: weekTrends where
  "emptyTrends = \<lparr> trend_sessions = 0, trend_cost = 0, trend_tokens = 0 \<rparr>"

text \<open>\<open>buildEmptyStats\<close> (without \<open>projectName\<close>, the base name of the path).\<close>

definition buildEmptyStats :: "int \<Rightarrow> string \<Rightarrow> stats" where
  "buildEmptyStats now path =
     \<lparr> projectPath = path, totalSessions = 0, totalUsage = createUsageData,
       estimatedCost = 0, sessions = [], dailyUsage = [],
       weeklyComparison = \<lparr> currentWeek = emptyWeek, lastWeek = emptyWeek, trends = emptyTrends \<rparr>,
       byModel = [], lastUpdated = now \<rparr>"

text \<open>The five \<open>+=\<close> on \<open>stats.totalUsage\<close> and the one on \<open>stats.estimatedCost\<close>.\<close>

definition add_to_totals :: "stats \<Rightarrow> sessionSummary \<Rightarrow> stats" where
  "add_to_totals st s =
     st \<lparr> totalUsage :=
            \<lparr> inputTokens = inputTokens (totalUsage st) + inputTokens (usage s),
              outputTokens = outputTokens (totalUsage st) + outputTokens (usage s),
              cacheWriteTokens = cacheWriteTokens (totalUsage st) + cacheWriteTokens (usage s),
              cacheReadTokens = cacheReadTokens (totalUsage st) + cacheReadTokens (usage s),
              totalTokens = totalTokens (totalUsage st) + totalTokens (usage s) \<rparr>,
          estimatedCost := estimatedCost st + cost s \<rparr>"

text \<open>
  \<open>dailyMap\<close> and \<open>modelMap\<close> are JavaScript \<open>Map\<close>s: association lists in insertion
  order. The entry for a key is created when missing and then updated in place.
\<close>

definition newDaily :: "string \<Rightarrow> dailyUsageEntry" where
  "newDaily k = \<lparr> date = k, day_sessions = 0, day_usage = createUsageData, day_cost = 0,
                  modelsUsed = [] \<rparr>"

definition newModelStat :: "string \<Rightarrow> modelStat" where
  "newModelStat m = \<lparr> stat_model = m, totalCost = 0, stat_totalTokens = 0, stat_inputTokens = 0,
                      stat_outputTokens = 0, cacheCreationTokens = 0, stat_cacheReadTokens = 0,
                      sessionCount = 0 \<rparr>"

text \<open>The Claude loop adds only the input and output tokens to a day's usage.\<close>

definition claude_daily_step ::
  "(int \<Rightarrow> string) \<Rightarrow> (string \<times> dailyUsageEntry) list \<Rightarrow> sessionSummary \<Rightarrow> (string \<times> dailyUsageEntry) list" where
  "claude_daily_step dateKey dailyMap s =
     (let k = dateKey (timestamp s);
          daily = (case map_of dailyMap k of Some e \<Rightarrow> e | None \<Rightarrow> newDaily k);
          daily' = daily \<lparr> day_sessions := day_sessions daily + 1,
                           day_cost := day_cost daily + cost s,
                           day_usage := (day_usage daily)
                              \<lparr> inputTokens := inputTokens (day_usage daily) + inputTokens (usage s),
                                outputTokens := outputTokens (day_usage daily) + outputTokens (usage s) \<rparr>,
                           modelsUsed := (if model s \<in> set (modelsUsed daily) then modelsUsed daily
                                          else modelsUsed daily @ [model s]) \<rparr>
      in AList.update k daily' dailyMap)"

text \<open>The Codex loop adds all five counters.\<close>

definition codex_daily_step ::
  "(int \<Rightarrow> string) \<Rightarrow> (string \<times> dailyUsageEntry) list \<Rightarrow> sessionSummary \<Rightarrow> (string \<times> dailyUsageEntry) list" where
  "codex_daily_step dateKey dailyMap s =
     (let k = dateKey (timestamp s);
          daily = (case map_of dailyMap k of Some e \<Rightarrow> e | None \<Rightarrow> newDaily k);
          daily' = daily \<lparr> day_sessions := day_sessions daily + 1,
                           day_cost := day_cost daily + cost s,
                           day_usage :=
                              \<lparr> inputTokens = inputTokens (day_usage daily) + inputTokens (usage s),
                                outputTokens = outputTokens (day_usage daily) + outputTokens (usage s),
                                cacheWriteTokens = cacheWriteTokens (day_usage daily) + cacheWriteTokens (usage s),
                                cacheReadTokens = cacheReadTokens (day_usage daily) + cacheReadTokens (usage s),
                                totalTokens = totalTokens (day_usage daily) + totalTokens (usage s) \<rparr>,
                           modelsUsed := (if model s \<in> set (modelsUsed daily) then modelsUsed daily
                                          else modelsUsed daily @ [model s]) \<rparr>
      in AList.update k daily' dailyMap)"

definition model_step :: "(string \<times> modelStat) list \<Rightarrow> sessionSummary \<Rightarrow> (string \<times> modelStat) list" where
  "model_step modelMap s =
     (let m = (case map_of modelMap (model s) of Some e \<Rightarrow> e | None \<Rightarrow> newModelStat (model s));
          m' = \<lparr> stat_model = stat_model m,
                 totalCost = totalCost m + cost s,
                 stat_totalTokens = stat_totalTokens m + totalTokens (usage s),
                 stat_inputTokens = stat_inputTokens m + inputTokens (usage s),
                 stat_outputTokens = stat_outputTokens m + outputTokens (usage s),
                 cacheCreationTokens = cacheCreationTokens m + cacheWriteTokens (usage s),
                 stat_cacheReadTokens = stat_cacheReadTokens m + cacheReadTokens (usage s),
                 sessionCount = sessionCount m + 1 \<rparr>
      in AList.update (model s) m' modelMap)"

definition add_to_week :: "weekTotals \<Rightarrow> sessionSummary \<Rightarrow> weekTotals" where
  "add_to_week w s =
     \<lparr> week_sessions = week_sessions w + 1, week_cost = week_cost w + cost s,
       week_tokens = week_tokens w + totalTokens (usage s) \<rparr>"

definition oneWeekAgo :: "int \<Rightarrow> int" where
  "oneWeekAgo now = now - 7 * 24 * 60 * 60 * 1000"

definition twoWeeksAgo :: "int \<Rightarrow> int" where
  "twoWeeksAgo now = now - 14 * 24 * 60 * 60 * 1000"

text \<open>The week test of the Claude loop (\<open>>\<close>) and of the Codex loop (\<open>>=\<close>).\<close>

definition claude_week_step :: "int \<Rightarrow> weekTotals \<times> weekTotals \<Rightarrow> sessionSummary \<Rightarrow> weekTotals \<times> weekTotals" where
  "claude_week_step now w s =
     (if timestamp s > oneWeekAgo now then (add_to_week (fst w) s, snd w)
      else if timestamp s > twoWeeksAgo now then (fst w, add_to_week (snd w) s)
      else w)"

definition codex_week_step :: "int \<Rightarrow> weekTotals \<times> weekTotals \<Rightarrow> sessionSummary \<Rightarrow> weekTotals \<times> weekTotals" where
  "codex_week_step now w s =
     (if timestamp s \<ge> oneWeekAgo now then (add_to_week (fst w) s, snd w)
      else if timestamp s \<ge> twoWeeksAgo now then (fst w, add_to_week (snd w) s)
      else w)"

text \<open>The sorts. \<open>Array.prototype.sort\<close> is stable, as \<open>sort_key\<close> is;
  \<open>(a, b) => b.timestamp - a.timestamp\<close> orders by descending timestamp.\<close>

definition newest_first :: "sessionSummary list \<Rightarrow> sessionSummary list" where
  "newest_first ss = sort_key (\<lambda>s. - timestamp s) ss"

definition by_date :: "dailyUsageEntry list \<Rightarrow> dailyUsageEntry list" where
  "by_date ds = sort_key date ds"

definition by_cost_desc :: "modelStat list \<Rightarrow> modelStat list" where
  "by_cost_desc ms = sort_key (\<lambda>m. - totalCost m) ms"

subsection \<open>processClaudeSessions\<close>

text \<open>The state of the single loop of \<open>processClaudeSessions\<close>.\<close>

record claude_loop =
  loop_stats :: stats
  loop_daily :: "(string \<times> dailyUsageEntry) list"
  loop_models :: "(string \<times> modelStat) list"
  loop_weeks :: "weekTotals \<times> weekTotals"

definition claude_loop_step :: "(int \<Rightarrow> string) \<Rightarrow> int \<Rightarrow> claude_loop \<Rightarrow> sessionSummary \<Rightarrow> claude_loop" where
  "claude_loop_step dateKey now l s =
     \<lparr> loop_stats = add_to_totals (loop_stats l) s,
       loop_daily = claude_daily_step dateKey (loop_daily l) s,
       loop_models = model_step (loop_models l) s,
       loop_weeks = claude_week_step now (loop_weeks l) s \<rparr>"

definition claude_trend :: "rat \<Rightarrow> rat \<Rightarrow> rat" where
  "claude_trend curW lastW = (if lastW = 0 then 0 else ((curW - lastW) / lastW) * 100)"

definition processClaudeSessions :: "(int \<Rightarrow> string) \<Rightarrow> int \<Rightarrow> sessionSummary list \<Rightarrow> stats \<Rightarrow> stats" where
  "processClaudeSessions dateKey now ss st =
     (let l = foldl (claude_loop_step dateKey now)
                \<lparr> loop_stats = st, loop_daily = [], loop_models = [],
                  loop_weeks = (emptyWeek, emptyWeek) \<rparr> ss;
          curW = fst (loop_weeks l);
          lastW = snd (loop_weeks l);
          sorted = newest_first ss
      in (loop_stats l)
           \<lparr> dailyUsage := by_date (map snd (loop_daily l)),
             byModel := by_cost_desc (map snd (loop_models l)),
             sessions := (if length sorted > 200 then take 200 sorted else sorted),
             weeklyComparison :=
               \<lparr> currentWeek = curW, lastWeek = lastW,
                 trends = \<lparr> trend_sessions = claude_trend (of_int (week_sessions curW)) (of_int (week_sessions lastW)),
                            trend_cost = claude_trend (week_cost curW) (week_cost lastW),
                            trend_tokens = claude_trend (of_int (week_tokens curW)) (of_int (week_tokens lastW)) \<rparr> \<rparr> \<rparr>)"

text \<open>\<open>getClaudeProjectStatistics\<close>, from the sessions that \<open>readClaudeSessionsFromDir\<close>
  has read.\<close>

definition getClaudeProjectStatistics :: "(int \<Rightarrow> string) \<Rightarrow> int \<Rightarrow> string \<Rightarrow> sessionSummary list \<Rightarrow> stats" where
  "getClaudeProjectStatistics dateKey now path ss =
     processClaudeSessions dateKey now ss ((buildEmptyStats now path) \<lparr> totalSessions := int (length ss) \<rparr>)"

subsection \<open>processCodexSessions\<close>

definition codex_trend :: "rat \<Rightarrow> rat \<Rightarrow> rat \<Rightarrow> rat" where
  "codex_trend old curW lastW = (if lastW > 0 then ((curW - lastW) / lastW) * 100 else old)"

definition processCodexSessions :: "(int \<Rightarrow> string) \<Rightarrow> int \<Rightarrow> sessionSummary list \<Rightarrow> stats \<Rightarrow> stats" where
  "processCodexSessions dateKey now ss st =
     (let st1 = foldl add_to_totals st ss;
          dailyMap = foldl (codex_daily_step dateKey) [] ss;
          modelMap = foldl model_step [] ss;
          st2 = st1 \<lparr> sessions := ss,
                      dailyUsage := by_date (map snd dailyMap),
                      byModel := by_cost_desc (map snd modelMap) \<rparr>;
          w = foldl (codex_week_step now)
                (currentWeek (weeklyComparison st2), lastWeek (weeklyComparison st2)) ss;
          curW = fst w;
          lastW = snd w;
          old = trends (weeklyComparison st2)
      in st2 \<lparr> weeklyComparison :=
                 \<lparr> currentWeek = curW, lastWeek = lastW,
                   trends = \<lparr> trend_sessions = codex_trend (trend_sessions old)
                                                 (of_int (week_sessions curW)) (of_int (week_sessions lastW)),
                              trend_cost = codex_trend (trend_cost old) (week_cost curW) (week_cost lastW),
                              trend_tokens = codex_trend (trend_tokens old)
                                               (of_int (week_tokens curW)) (of_int (week_tokens lastW)) \<rparr> \<rparr> \<rparr>)"

text \<open>\<open>readCodexSessionSummaries\<close> sorts the summaries it has parsed;
  \<open>getCodexProjectStatistics\<close> hands them to \<open>processCodexSessions\<close>.\<close>

definition readCodexSessionSummaries :: "sessionSummary list \<Rightarrow> sessionSummary list" where
  "readCodexSessionSummaries parsed = newest_first parsed"

definition getCodexProjectStatistics :: "(int \<Rightarrow> string) \<Rightarrow> int \<Rightarrow> string \<Rightarrow> sessionSummary list \<Rightarrow> stats" where
  "getCodexProjectStatistics dateKey now path parsed =
     (let ss = readCodexSessionSummaries parsed in
      processCodexSessions dateKey now ss ((buildEmptyStats now path) \<lparr> totalSessions := int (length ss) \<rparr>))"

text \<open>A session of one token, for the examples.\<close>

definition one_token_session :: "string \<Rightarrow> int \<Rightarrow> sessionSummary" where
  "one_token_session name ts =
     \<lparr> sessionId = name, timestamp = ts, model = ''gpt-5.1'',
       usage = \<lparr> inputTokens = 1, outputTokens = 0, cacheWriteTokens = 0,
                 cacheReadTokens = 0, totalTokens = 1 \<rparr>,
       cost = 3 / 1000000, summary = None \<rparr>"

section \<open>Sending a prompt (server.js, handleSendMessage)\<close>

text \<open>
  What the handler puts on standard output: the envelopes of \<open>sendToHost\<close>, and the lines
  of the SDK that it passes through verbatim (\<open>originalConsoleLog(output)\<close>).
\<close>

datatype line = Envelope envelope | RawLine string

text \<open>
  The run of the SDK command the handler awaits (\<open>handleClaudeCommand\<close> or
  \<open>handleCodexCommand\<close>, which live in other modules): the strings it passes to
  \<open>console.log\<close>, in order, and how it ends. A rejection carries an \<open>Error\<close> with its
  message, some other value whose \<open>message\<close> reads \<open>undefined\<close>, or \<open>null\<close>/\<open>undefined\<close>.
\<close>

datatype thrown = Error string | NoMessage | Nullish

record sdk_run =
  logged :: "string list"
  rejects :: "thrown option"

text \<open>\<open>if (t.startsWith(' ')) t = t.slice(1)\<close>.\<close>

definition strip_one_space :: "string \<Rightarrow> string" where
  "strip_one_space t = (if startsWith t '' '' then drop 1 t else t)"

text \<open>The payloads \<open>{ sessionId }\<close> and \<open>{ delta, sessionId }\<close>; \<open>JSON.stringify\<close> leaves
  out a \<open>sessionId\<close> that is \<open>undefined\<close>.\<close>

definition sid_field :: "json option \<Rightarrow> (string \<times> json) list" where
  "sid_field sid = (case sid of Some v \<Rightarrow> [(''sessionId'', v)] | None \<Rightarrow> [])"

definition chunk :: "string \<Rightarrow> json \<Rightarrow> json option \<Rightarrow> string option \<Rightarrow> line" where
  "chunk t delta sid rid = Envelope (sendToHost t (JObj ((''delta'', delta) # sid_field sid)) rid)"

text \<open>The three variables the interceptor closes over.\<close>

record intercept_state =
  bufferedContent :: string
  capturedStructuredError :: "string option"
  structuredErrorEmitted :: bool

text \<open>
  The text accumulated from a parsed \<open>[MESSAGE]\<close> when streaming is off and the message
  is an assistant message: \<open>blocks = msg.message?.content ?? msg.content\<close>, then the
  \<open>text\<close> of every text block, or \<open>blocks\<close> itself when it is a string.
\<close>

definition nullish :: "json option \<Rightarrow> bool" where
  "nullish v = (v = None \<or> v = Some JNull)"

definition message_blocks :: "json \<Rightarrow> json option" where
  "message_blocks msg =
     (let inner = (case get_prop msg ''message'' of
                     Some m \<Rightarrow> get_prop m ''content''
                   | None \<Rightarrow> None)
      in if nullish inner then get_prop msg ''content'' else inner)"

definition block_text :: "json \<Rightarrow> string" where
  "block_text b =
     (if get_prop b ''type'' = Some (JStr ''text'')
      then (case get_prop b ''text'' of Some (JStr t) \<Rightarrow> t | _ \<Rightarrow> [])
      else [])"

definition message_text :: "json \<Rightarrow> string" where
  "message_text msg =
     (if truthy msg \<and> get_prop msg ''type'' = Some (JStr ''assistant'')
      then (case message_blocks msg of
              Some (JArr blocks) \<Rightarrow> concat (map block_text blocks)
            | Some (JStr t) \<Rightarrow> t
            | _ \<Rightarrow> [])
      else [])"

definition text_error_prefix :: string where
  "text_error_prefix = [CHR 0x0A, CHR 0x0A] @ ''Error: ''"

text \<open>
  The interceptor installed for the Claude SDK, applied to one \<open>console.log\<close> output,
  gives the new state and the lines put on standard output. \<open>parse\<close> is \<open>JSON.parse\<close>,
  with \<open>None\<close> for a \<open>SyntaxError\<close>. What goes to standard error is left out. A
  \<open>sendToHost\<close> inside the interceptor prints through the intercepted \<open>console.log\<close>:
  its line comes back as an output that starts with \<open>{\<close> and has a \<open>type\<close>, and is
  passed through. Each branch of the interceptor is a function of its own here.
\<close>

text \<open>\<open>[CONTENT_DELTA]\<close> and \<open>[THINKING_DELTA]\<close>: the parsed delta, or the text as it is.\<close>

definition on_delta ::
  "(string \<Rightarrow> json option) \<Rightarrow> string \<Rightarrow> string \<Rightarrow> json option \<Rightarrow> string option \<Rightarrow> string \<Rightarrow> line list" where
  "on_delta parse t marker sid rid output =
     (let deltaJson = trim (drop (length marker) output) in
      case parse deltaJson of
        Some delta \<Rightarrow> [chunk t delta sid rid]
      | None \<Rightarrow> [chunk t (JStr deltaJson) sid rid])"

text \<open>\<open>[CONTENT]\<close>: sent when streaming is on, buffered otherwise.\<close>

definition on_content ::
  "bool \<Rightarrow> json option \<Rightarrow> string option \<Rightarrow> intercept_state \<Rightarrow> string \<Rightarrow> intercept_state \<times> line list" where
  "on_content streamingEnabled sid rid st output =
     (let textChunk = strip_one_space (drop (length ''[CONTENT]'') output) in
      if streamingEnabled then (st, [chunk ''streamChunk'' (JStr textChunk) sid rid])
      else (st \<lparr> bufferedContent := bufferedContent st @ textChunk \<rparr>, []))"

text \<open>\<open>[THINKING]\<close>.\<close>

definition on_thinking :: "json option \<Rightarrow> string option \<Rightarrow> string \<Rightarrow> line list" where
  "on_thinking sid rid output =
     (let thinkingChunk = strip_one_space (drop (length ''[THINKING]'') output) in
      if thinkingChunk \<noteq> [] then [chunk ''thinkingChunk'' (JStr thinkingChunk) sid rid] else [])"

text \<open>\<open>[MESSAGE]\<close>: a \<open>messageUpdate\<close> envelope for a message that parses; its text is
  buffered when streaming is off.\<close>

definition on_message ::
  "(string \<Rightarrow> json option) \<Rightarrow> bool \<Rightarrow> json option \<Rightarrow> string option \<Rightarrow> intercept_state \<Rightarrow> string
     \<Rightarrow> intercept_state \<times> line list" where
  "on_message parse streamingEnabled sid rid st output =
     (let msgJson = trim (drop (length ''[MESSAGE]'') output) in
      case parse msgJson of
        Some msg \<Rightarrow>
          ((if \<not> streamingEnabled
            then st \<lparr> bufferedContent := bufferedContent st @ message_text msg \<rparr> else st),
           [Envelope (sendToHost ''messageUpdate'' (JObj ((''message'', msg) # sid_field sid)) rid)])
      | None \<Rightarrow> (st, []))"

text \<open>An output that starts with \<open>{\<close>: a structured error of the SDK (reported once), a
  line with a \<open>type\<close> (passed through), or neither.\<close>

definition is_structured_error :: "json \<Rightarrow> string option" where
  "is_structured_error v =
     (if get_prop v ''success'' = Some (JBool False)
      then (case get_prop v ''error'' of Some (JStr err) \<Rightarrow> Some err | _ \<Rightarrow> None)
      else None)"

definition has_type :: "json \<Rightarrow> bool" where
  "has_type v = (case get_prop v ''type'' of Some (JStr t) \<Rightarrow> True | _ \<Rightarrow> False)"

definition on_json ::
  "(string \<Rightarrow> json option) \<Rightarrow> json option \<Rightarrow> string option \<Rightarrow> intercept_state \<Rightarrow> string
     \<Rightarrow> intercept_state \<times> line list" where
  "on_json parse sid rid st output =
     (case parse output of
        Some maybeJson \<Rightarrow>
          (case is_structured_error maybeJson of
             Some err \<Rightarrow>
               (st \<lparr> capturedStructuredError := Some err, structuredErrorEmitted := True \<rparr>,
                if \<not> structuredErrorEmitted st
                then [chunk ''streamChunk'' (JStr (text_error_prefix @ err)) sid rid] else [])
           | None \<Rightarrow> (st, if has_type maybeJson then [RawLine output] else []))
      | None \<Rightarrow> (st, []))"

definition intercept ::
  "(string \<Rightarrow> json option) \<Rightarrow> bool \<Rightarrow> bool \<Rightarrow> json option \<Rightarrow> string option
     \<Rightarrow> intercept_state \<Rightarrow> string \<Rightarrow> intercept_state \<times> line list" where
  "intercept parse streamingEnabled thinkingEnabled sid rid st output =
     (if startsWith output ''[CONTENT_DELTA]'' then
        (st, on_delta parse ''streamChunk'' ''[CONTENT_DELTA]'' sid rid output)
      else if startsWith output ''[CONTENT]'' then
        on_content streamingEnabled sid rid st output
      else if startsWith output ''[THINKING_DELTA]'' then
        (st, if thinkingEnabled then on_delta parse ''thinkingChunk'' ''[THINKING_DELTA]'' sid rid output else [])
      else if startsWith output ''[THINKING]'' then
        (st, if thinkingEnabled then on_thinking sid rid output else [])
      else if startsWith output ''[MESSAGE]'' then
        on_message parse streamingEnabled sid rid st output
      else if startsWith output ''[STREAM_START]'' then (st, [])
      else if startsWith output ''[STREAM_END]'' then (st, [])
      else if startsWith output ''{'' then on_json parse sid rid st output
      else (st, []))"

text \<open>The interceptor over all the outputs of a run, from a given state.\<close>

fun intercept_all ::
  "(string \<Rightarrow> json option) \<Rightarrow> bool \<Rightarrow> bool \<Rightarrow> json option \<Rightarrow> string option
     \<Rightarrow> intercept_state \<Rightarrow> string list \<Rightarrow> intercept_state \<times> line list" where
  "intercept_all parse se te sid rid st [] = (st, [])"
| "intercept_all parse se te sid rid st (output # rest) =
     (let (st1, out1) = intercept parse se te sid rid st output;
          (st2, out2) = intercept_all parse se te sid rid st1 rest
      in (st2, out1 @ out2))"

text \<open>After the awaited command has returned: the buffered text, when streaming is off.\<close>

definition flush_buffer :: "bool \<Rightarrow> json option \<Rightarrow> string option \<Rightarrow> intercept_state \<Rightarrow> line list" where
  "flush_buffer streamingEnabled sid rid st =
     (if \<not> streamingEnabled \<and> bufferedContent st \<noteq> []
      then [chunk ''streamChunk'' (JStr (bufferedContent st)) sid rid]
      else if \<not> streamingEnabled \<and> capturedStructuredError st \<noteq> None
                \<and> capturedStructuredError st \<noteq> Some [] \<and> \<not> structuredErrorEmitted st
      then [chunk ''streamChunk'' (JStr (text_error_prefix @ the (capturedStructuredError st))) sid rid]
      else [])"

text \<open>
  The \<open>catch\<close> block: \<open>error.message\<close> is the message of an \<open>Error\<close>, \<open>undefined\<close> for a
  value without one, and a \<open>TypeError\<close> thrown out of the handler for \<open>null\<close> or
  \<open>undefined\<close> (\<open>None\<close> here).
\<close>

fun catch_chunk :: "json option \<Rightarrow> string option \<Rightarrow> thrown \<Rightarrow> line list option" where
  "catch_chunk sid rid (Error m) = Some [chunk ''streamChunk'' (JStr (text_error_prefix @ m)) sid rid]"
| "catch_chunk sid rid NoMessage = Some [chunk ''streamChunk'' (JStr (text_error_prefix @ ''undefined'')) sid rid]"
| "catch_chunk sid rid Nullish = None"

text \<open>The text sent when the SDK of the chosen provider is not available.\<close>

record diagnostics =
  homedir :: string
  depsDirExists :: bool
  depsDirEntries :: "string list"
  expectedPath :: "string option"
  expectedExists :: bool

definition claudeManual :: string where
  "claudeManual =
     ''mkdir -p ~/.codemoss/dependencies/claude-sdk'' @ [CHR 0x0A]
     @ ''cd ~/.codemoss/dependencies/claude-sdk'' @ [CHR 0x0A]
     @ ''npm init -y'' @ [CHR 0x0A]
     @ ''npm install @anthropic-ai/claude-agent-sdk @anthropic-ai/sdk @anthropic-ai/bedrock-sdk''"

definition codexManual :: string where
  "codexManual =
     ''mkdir -p ~/.codemoss/dependencies/codex-sdk'' @ [CHR 0x0A]
     @ ''cd ~/.codemoss/dependencies/codex-sdk'' @ [CHR 0x0A]
     @ ''npm init -y'' @ [CHR 0x0A]
     @ ''npm install @openai/codex-sdk''"

definition show_bool :: "bool \<Rightarrow> string" where
  "show_bool b = (if b then ''true'' else ''false'')"

definition sdk_missing_text :: "bool \<Rightarrow> json \<Rightarrow> diagnostics \<Rightarrow> string" where
  "sdk_missing_text isCodexProvider provider diag =
     (let sdkName = (if isCodexProvider then ''Codex SDK'' else ''Claude Code SDK'');
          manual = (if isCodexProvider then codexManual else claudeManual);
          depsDir = homedir diag @ ''/.codemoss/dependencies'';
          children = join_with '', '' (depsDirEntries diag);
          expected = (case expectedPath diag of Some p \<Rightarrow> if p \<noteq> [] then p else ''(unknown)''
                      | None \<Rightarrow> ''(unknown)'')
      in [CHR 0xE2, CHR 0x9A, CHR 0xA0, CHR 0xEF, CHR 0xB8, CHR 0x8F] @ '' '' @ sdkName @
         '' '' @ [CHR 0xE6, CHR 0x9C, CHR 0xAA, CHR 0xE5, CHR 0xAE, CHR 0x89, CHR 0xE8, CHR 0xA3, CHR
     0x85, CHR 0xEF, CHR 0xBC, CHR 0x88, CHR 0xE6, CHR 0x88, CHR 0x96, CHR 0xE6, CHR 0x9C, CHR
     0xAA, CHR 0xE8, CHR 0xA2, CHR 0xAB, CHR 0xE6, CHR 0xA3, CHR 0x80, CHR 0xE6, CHR 0xB5, CHR
     0x8B, CHR 0xE5, CHR 0x88, CHR 0xB0, CHR 0xEF, CHR 0xBC, CHR 0x89, CHR 0xEF, CHR 0xBC, CHR
     0x8C, CHR 0xE5, CHR 0xBD, CHR 0x93, CHR 0xE5, CHR 0x89, CHR 0x8D, CHR 0xE6, CHR 0x97, CHR
     0xA0, CHR 0xE6, CHR 0xB3, CHR 0x95, CHR 0xE6, CHR 0x8F, CHR 0x90, CHR 0xE9, CHR 0x97, CHR
     0xAE] @ ''/'' @ [CHR 0xE8, CHR 0x8E, CHR 0xB7, CHR 0xE5, CHR 0x8F, CHR 0x96, CHR 0xE5, CHR
     0x9B, CHR 0x9E, CHR 0xE5, CHR 0xA4, CHR 0x8D, CHR 0xE3, CHR 0x80, CHR 0x82, CHR 0x0A, CHR
     0x0A, CHR 0xE4, CHR 0xBD, CHR 0xA0, CHR 0xE5, CHR 0x8F, CHR 0xAF, CHR 0xE4, CHR 0xBB, CHR
     0xA5, CHR 0xE5, CHR 0x9C, CHR 0xA8, CHR 0xE6, CHR 0x8F, CHR 0x92, CHR 0xE4, CHR 0xBB, CHR
     0xB6, CHR 0xE8, CHR 0xAE, CHR 0xBE, CHR 0xE7, CHR 0xBD, CHR 0xAE, CHR 0xE9, CHR 0x87, CHR
     0x8C, CHR 0xE6, CHR 0x89, CHR 0x93, CHR 0xE5, CHR 0xBC, CHR 0x80, CHR 0xE3, CHR 0x80, CHR
     0x8C] @ ''SDK '' @ [CHR 0xE4, CHR 0xBE, CHR 0x9D, CHR 0xE8, CHR 0xB5, CHR 0x96, CHR
     0xE3, CHR 0x80, CHR 0x8D, CHR 0xE5, CHR 0xB9, CHR 0xB6, CHR 0xE7, CHR 0x82, CHR 0xB9, CHR
     0xE5, CHR 0x87, CHR 0xBB, CHR 0xE5, CHR 0xAE, CHR 0x89, CHR 0xE8, CHR 0xA3, CHR 0x85, CHR
     0xEF, CHR 0xBC, CHR 0x9B, CHR 0xE6, CHR 0x88, CHR 0x96, CHR 0xE8, CHR 0x80, CHR 0x85, CHR
     0xE6, CHR 0x89, CHR 0x8B, CHR 0xE5, CHR 0x8A, CHR 0xA8, CHR 0xE6, CHR 0x89, CHR 0xA7, CHR
     0xE8, CHR 0xA1, CHR 0x8C, CHR 0xEF, CHR 0xBC, CHR 0x9A, CHR 0x0A, CHR 0x60, CHR 0x60, CHR
     0x60] @ ''bash'' @ [CHR 0x0A] @ manual @
         [CHR 0x0A, CHR 0x60, CHR 0x60, CHR 0x60, CHR 0x0A, CHR 0xE8, CHR 0xAF, CHR 0x8A, CHR
     0xE6, CHR 0x96, CHR 0xAD, CHR 0xE4, CHR 0xBF, CHR 0xA1, CHR 0xE6, CHR 0x81, CHR 0xAF, CHR
     0xEF, CHR 0xBC, CHR 0x9A, CHR 0x0A] @ ''- provider: '' @ js_String provider @
         [CHR 0x0A] @ ''- homedir: '' @ homedir diag @
         [CHR 0x0A] @ ''- depsDir: '' @ depsDir @
         '' (exists: '' @ show_bool (depsDirExists diag) @
         '')'' @ [CHR 0x0A] @ ''- depsDir children: '' @ (if children \<noteq> [] then children else ''(empty)'') @
         [CHR 0x0A] @ ''- expectedPath: '' @ expected @
         '' (exists: '' @ show_bool (expectedExists diag) @
         '')'' @ [CHR 0x0A, CHR 0x0A, CHR 0xE5, CHR 0xAE, CHR 0x89, CHR 0xE8, CHR 0xA3, CHR 0x85, CHR
     0xE5, CHR 0xAE, CHR 0x8C, CHR 0xE6, CHR 0x88, CHR 0x90, CHR 0xE5, CHR 0x90, CHR 0x8E, CHR
     0xE5, CHR 0x9B, CHR 0x9E, CHR 0xE5, CHR 0x88, CHR 0xB0, CHR 0xE9, CHR 0x9D, CHR 0xA2, CHR
     0xE6, CHR 0x9D, CHR 0xBF, CHR 0xE9, CHR 0x87, CHR 0x8D, CHR 0xE8, CHR 0xAF, CHR 0x95, CHR
     0xE5, CHR 0x8D, CHR 0xB3, CHR 0xE5, CHR 0x8F, CHR 0xAF, CHR 0xE3, CHR 0x80, CHR 0x82])"

text \<open>The state the interceptor starts from, and whether the handler runs an SDK
  command at all.\<close>

definition intercept_init :: intercept_state where
  "intercept_init = \<lparr> bufferedContent = [], capturedStructuredError = None,
                       structuredErrorEmitted = False \<rparr>"

definition provider_of :: "string \<Rightarrow> json \<Rightarrow> json" where
  "provider_of currentProvider content =
     (case get_prop content ''provider'' of Some p \<Rightarrow> p | None \<Rightarrow> JStr currentProvider)"

definition is_codex :: "json \<Rightarrow> bool" where
  "is_codex provider = (provider = JStr ''codex'' \<or> provider = JStr ''openai'')"

definition streaming_on :: "(string \<times> json) list \<Rightarrow> bool" where
  "streaming_on settings = (map_of settings ''streamingEnabled'' \<noteq> Some (JBool False))"

definition thinking_on :: "(string \<times> json) list \<Rightarrow> bool" where
  "thinking_on settings = (map_of settings ''thinkingEnabled'' \<noteq> Some (JBool False))"

text \<open>
  \<open>handleSendMessage\<close>. \<open>settings\<close> is \<open>settings.json\<close>; \<open>currentProvider\<close> is the module's
  variable; \<open>claudeAvailable\<close> and \<open>codexAvailable\<close> are \<open>isClaudeSdkAvailable()\<close> and
  \<open>isCodexSdkAvailable()\<close>. The result is what was put on standard output, and
  whether the handler returned (\<open>False\<close>: an exception left it). \<open>try_block\<close> is the
  body of its \<open>try\<close>: the lines it has sent and the value it has thrown, if any.
\<close>

definition try_block ::
  "(string \<Rightarrow> json option) \<Rightarrow> diagnostics \<Rightarrow> bool \<Rightarrow> bool \<Rightarrow> string \<Rightarrow> (string \<times> json) list
     \<Rightarrow> sdk_run \<Rightarrow> json \<Rightarrow> string option \<Rightarrow> line list \<times> thrown option" where
  "try_block parse diag claudeAvailable codexAvailable currentProvider settings run content rid =
     (let sid = get_prop content ''sessionId'';
          provider = provider_of currentProvider content;
          isCodexProvider = is_codex provider;
          isClaudeProvider = (\<not> isCodexProvider);
          streamingEnabled = streaming_on settings;
          thinkingEnabled = thinking_on settings
      in if isClaudeProvider \<and> claudeAvailable then
           (let (st, out) = intercept_all parse streamingEnabled thinkingEnabled sid rid
                              intercept_init (logged run)
            in case rejects run of
                 None \<Rightarrow> (out @ flush_buffer streamingEnabled sid rid st, None)
               | Some e \<Rightarrow> (out, Some e))
         else if isCodexProvider \<and> codexAvailable then
           (map RawLine (logged run), rejects run)
         else
           ([chunk ''streamChunk'' (JStr (sdk_missing_text isCodexProvider provider diag)) sid rid], None))"

definition handleSendMessage ::
  "(string \<Rightarrow> json option) \<Rightarrow> diagnostics \<Rightarrow> bool \<Rightarrow> bool \<Rightarrow> string \<Rightarrow> (string \<times> json) list
     \<Rightarrow> sdk_run \<Rightarrow> json \<Rightarrow> string option \<Rightarrow> line list \<times> bool" where
  "handleSendMessage parse diag claudeAvailable codexAvailable currentProvider settings run content rid =
     (let sid = get_prop content ''sessionId'';
          streamStart = [Envelope (sendToHost ''streamStart'' (JObj (sid_field sid)) rid)];
          streamEnd = [Envelope (sendToHost ''streamEnd'' (JObj (sid_field sid)) rid)];
          tried = try_block parse diag claudeAvailable codexAvailable currentProvider settings run content rid
      in case snd tried of
           None \<Rightarrow> (streamStart @ fst tried @ streamEnd, True)
         | Some e \<Rightarrow>
             (case catch_chunk sid rid e of
                Some c \<Rightarrow> (streamStart @ fst tried @ c @ streamEnd, True)
              | None \<Rightarrow> (streamStart @ fst tried, False)))"








text \<open>For the examples: \<open>JSON.parse\<close> on the one text they parse, \<open>{}\<close>, and a machine
  without the dependencies directory.\<close>

definition parse_empty_object :: "string \<Rightarrow> json option" where
  "parse_empty_object s = (if s = ''{}'' then Some (JObj []) else None)"

definition no_deps :: diagnostics where
  "no_deps = \<lparr> homedir = ''/home/u'', depsDirExists = False, depsDirEntries = [],
               expectedPath = None, expectedExists = False \<rparr>"

section \<open>TOML (utils/toml-utils.js)\<close>

text \<open>
  A configuration value is built like a \<open>json\<close> value, with numbers of a type \<open>'n\<close> of its
  own: the numbers of JavaScript, of which this file needs only what \<open>String\<close> writes
  for one and what \<open>Number\<close> reads from a text. Both are parameters: \<open>str_of\<close> of the
  writer, and \<open>num_of\<close> of the parser, \<open>None\<close> for \<open>NaN\<close>. An object is the list of its own
  properties: for a configuration to write, in the order \<open>Object.entries\<close> gives them; for
  an object the parser makes, in the order in which it adds them, which nothing below
  depends on.
\<close>

datatype 'n conf =
    CNull
  | CBool bool
  | CNum 'n
  | CStr string
  | CArr "'n conf list"
  | CObj "(string \<times> 'n conf) list"

subsection \<open>escapeTomlString and unescapeTomlString\<close>





subsection \<open>splitTomlElements\<close>

record split_state =
  result :: "string list"
  current :: string
  depth :: int
  inDouble :: bool
  inSingle :: bool
  escaped :: bool





subsection \<open>parseTomlValue, parseTomlArray, parseTomlInlineTable\<close>







text \<open>
  \<open>obj[key] = value\<close> on an object the parser has made. Such an object has no own
  property \<open>__proto__\<close>, so an assignment to that key goes to the accessor of
  \<open>Object.prototype\<close>: it does nothing for a value that is neither an object nor
  \<open>null\<close>, and it replaces the prototype of \<open>obj\<close> by a value that is one. What the
  program does after that depends on the replaced prototype, which is outside this
  model: \<open>None\<close>.
\<close>

fun replaces_prototype :: "'n conf \<Rightarrow> bool" where
  "replaces_prototype (CArr xs) = True"
| "replaces_prototype (CObj kvs) = True"
| "replaces_prototype CNull = True"
| "replaces_prototype v = False"

definition assign_own :: "string \<Rightarrow> 'n conf \<Rightarrow> (string \<times> 'n conf) list \<Rightarrow> (string \<times> 'n conf) list option" where
  "assign_own key v obj =
     (if key = ''__proto__'' then (if replaces_prototype v then None else Some obj)
      else Some (AList.update key v obj))"















subsection \<open>parseToml\<close>






subsection \<open>generateToml\<close>


text \<open>An entry is nested when its value is an object that is not an array, and simple
  otherwise.\<close>

fun is_table :: "'n conf \<Rightarrow> bool" where
  "is_table (CObj kvs) = True"
| "is_table v = False"







subsection \<open>Configurations that survive the round trip\<close>



















text \<open>A state of \<open>splitTomlElements\<close> outside every string and escape.\<close>

definition clean :: "split_state \<Rightarrow> bool" where
  "clean st = (\<not> inDouble st \<and> \<not> inSingle st \<and> \<not> escaped st)"



text \<open>A text that \<open>trim\<close> leaves as it is: not empty, no white space at either end.\<close>

definition tight :: "string \<Rightarrow> bool" where
  "tight s = (s \<noteq> [] \<and> \<not> is_space (hd s) \<and> \<not> is_space (last s))"


subsection \<open>The document as a list of sections\<close>

text \<open>
  What \<open>writeTomlSection\<close> writes, before it is text: for every table with simple
  entries its path and those entries, in the order of the headers.
\<close>

fun blocks :: "string list \<Rightarrow> 'n conf \<Rightarrow> (string list \<times> (string \<times> 'n conf) list) list" where
  "blocks path (CObj entries) =
     (let simpleEntries = filter (\<lambda>kv. \<not> is_table (snd kv)) entries
      in (if simpleEntries \<noteq> [] then [(path, simpleEntries)] else [])
         @ concat (map (\<lambda>kv. if is_table (snd kv) then blocks (path @ [fst kv]) (snd kv) else [])
                       entries))"
| "blocks path v = []"



text \<open>The assignments of a list of entries to an object, one after the other.\<close>

definition puts ::
  "(string \<times> 'n conf) list \<Rightarrow> (string \<times> 'n conf) list option \<Rightarrow> (string \<times> 'n conf) list option" where
  "puts es obj = foldl (\<lambda>acc kv. Option.bind acc (assign_own (fst kv) (snd kv))) obj es"










section \<open>Properties of message-type normalization\<close>

lemma typeMap_keys_snake: "\<forall>k \<in> fst ` set typeMap. CHR ''_'' \<in> set k"
  unfolding typeMap_def by simp

lemma typeMap_values_camel: "\<forall>v \<in> snd ` set typeMap. CHR ''_'' \<notin> set v"
  unfolding typeMap_def by simp

lemma typeMap_value_not_key:
  assumes "map_of typeMap t = Some v"
  shows "map_of typeMap v = None"
proof -
  from assms have "(t, v) \<in> set typeMap" by (rule map_of_SomeD)
  then have "v \<in> snd ` set typeMap" by force
  with typeMap_values_camel have "CHR ''_'' \<notin> set v" by blast
  with typeMap_keys_snake have "v \<notin> fst ` set typeMap" by blast
  then show ?thesis by (simp add: map_of_eq_None_iff)
qed

lemma typeMap_value_not_member:
  assumes "map_of typeMap t = Some v"
  shows "v \<notin> set proto_names"
proof -
  from assms have "(t, v) \<in> set typeMap" by (rule map_of_SomeD)
  then have "v \<in> snd ` set typeMap" by force
  with typeMap_values_camel have "CHR ''_'' \<notin> set v" by blast
  moreover have "\<forall>m \<in> set proto_names. CHR ''_'' \<in> set m \<or> m \<notin> snd ` set typeMap"
    unfolding proto_names_def typeMap_def by simp
  ultimately show ?thesis using \<open>v \<in> snd ` set typeMap\<close> by blast
qed

text \<open>
  Normalization is idempotent on every value, no canonical name is itself a legacy key
  of the table, and a string that is neither a key of the table nor the name of a
  member of \<open>Object.prototype\<close> is returned unchanged.
\<close>

lemma normalizeMessageType_twice:
  "normalizeMessageType (normalizeMessageType x) = normalizeMessageType x"
proof (cases x)
  case (Member m)
  then show ?thesis by simp
next
  case (Name t)
  show ?thesis
  proof (cases "map_of typeMap t")
    case None
    with Name show ?thesis by simp
  next
    case (Some v)
    then have "map_of typeMap v = None" and "v \<notin> set proto_names"
      by (rule typeMap_value_not_key, rule typeMap_value_not_member)
    with Some Name show ?thesis by simp
  qed
qed

lemma typeMap_canonical_names_are_not_keys: "snd ` set typeMap \<inter> fst ` set typeMap = {}"
  using typeMap_keys_snake typeMap_values_camel by blast

lemma normalizeMessageType_passes_other_names:
  assumes "t \<notin> fst ` set typeMap" and "t \<notin> set proto_names"
  shows "normalizeMessageType (Name t) = Name t"
proof -
  from assms(1) have "map_of typeMap t = None" by (simp add: map_of_eq_None_iff)
  with assms(2) show ?thesis by simp
qed

text \<open>
  C8 fails on the code: \<open>constructor\<close> is not a key of the table, and it is not
  returned unchanged: \<open>typeMap['constructor']\<close> is the inherited function \<open>Object\<close>, which
  is truthy, so that is what \<open>normalizeMessageType('constructor')\<close> returns.
\<close>

theorem normalizeMessageType_returns_inherited_member:
  "map_of typeMap ''constructor'' = None
   \<and> normalizeMessageType (Name ''constructor'') = Member ''constructor''"
proof -
  have "CHR ''_'' \<notin> set ''constructor''" by simp
  with typeMap_keys_snake have "''constructor'' \<notin> fst ` set typeMap" by blast
  then have none: "map_of typeMap ''constructor'' = None" by (simp add: map_of_eq_None_iff)
  then show ?thesis by (simp add: proto_names_def)
qed

section \<open>Properties of the settings merge\<close>

lemma map_of_spread: "map_of (spread a b) = map_of a ++ map_of (rev b)"
  unfolding spread_def
  by (induction b arbitrary: a) (auto simp: update_conv' map_add_def fun_eq_iff split: option.splits)

lemma map_of_rev_distinct: "distinct (map fst b) \<Longrightarrow> map_of (rev b) = map_of b"
proof (induction b)
  case Nil
  then show ?case by simp
next
  case (Cons kv b)
  then have ih: "map_of (rev b) = map_of b" and fresh: "map_of b (fst kv) = None"
    by (simp_all add: map_of_eq_None_iff)
  show ?case
  proof
    fix k
    show "map_of (rev (kv # b)) k = map_of (kv # b) k"
      using ih fresh by (cases kv) (auto simp: map_add_def split: option.splits)
  qed
qed

lemma map_of_spread_distinct:
  "distinct (map fst b) \<Longrightarrow>
     map_of (spread a b) k = (case map_of b k of Some v \<Rightarrow> Some v | None \<Rightarrow> map_of a k)"
  by (simp add: map_of_spread map_of_rev_distinct map_add_def)

lemma map_of_own_step:
  "map_of (own_step next (key, v)) = (map_of next)(key \<mapsto> merged_value next key v)"
  by (cases v) (auto simp: own_step_def merged_value_def update_conv' Let_def)

lemma foldl_own_step_other:
  "k \<notin> fst ` set p \<Longrightarrow> map_of (foldl own_step n p) k = map_of n k"
proof (induction p arbitrary: n)
  case Nil
  then show ?case by simp
next
  case (Cons kv p)
  obtain key v where kv: "kv = (key, v)" by (cases kv)
  with Cons show ?case by (simp add: map_of_own_step)
qed

lemma foldl_own_step_member:
  "distinct (map fst p) \<Longrightarrow> (k, v) \<in> set p \<Longrightarrow>
     map_of (foldl own_step n p) k = Some (merged_value n k v)"
proof (induction p arbitrary: n)
  case Nil
  then show ?case by simp
next
  case (Cons kv p)
  obtain key w where kv: "kv = (key, w)" by (cases kv)
  show ?case
  proof (cases "(k, v) = kv")
    case True
    with kv have eq: "key = k" "w = v" by simp_all
    from Cons.prems kv eq have "k \<notin> fst ` set p" by simp
    then have "map_of (foldl own_step (own_step n (k, v)) p) k = map_of (own_step n (k, v)) k"
      by (rule foldl_own_step_other)
    then show ?thesis
      using kv eq by (simp add: map_of_own_step)
  next
    case False
    with Cons.prems have mem: "(k, v) \<in> set p" and d: "distinct (map fst p)" by auto
    from Cons.prems kv mem have ne: "key \<noteq> k" by force
    have "map_of (foldl own_step (own_step n (key, w)) p) k
            = Some (merged_value (own_step n (key, w)) k v)"
      using Cons.IH [OF d mem] .
    moreover have "merged_value (own_step n (key, w)) k v = merged_value n k v"
      using ne by (cases v) (simp_all add: merged_value_def map_of_own_step)
    ultimately show ?thesis using kv by simp
  qed
qed

text \<open>A patch without a key \<open>__proto__\<close> leaves the prototype alone.\<close>

lemma foldl_merge_step_own:
  "''__proto__'' \<notin> fst ` set p \<Longrightarrow>
     foldl merge_step (n, ObjectPrototype) p = (foldl own_step n p, ObjectPrototype)"
proof (induction p arbitrary: n)
  case Nil
  then show ?case by simp
next
  case (Cons kv p)
  then have "fst kv \<noteq> ''__proto__''" and "''__proto__'' \<notin> fst ` set p" by auto
  then show ?case
    using Cons.IH [of "own_step n kv"] by (simp add: merge_step_def own_step_def)
qed

text \<open>
  For a patch that has no key \<open>__proto__\<close>: every key of the result that the patch does
  not mention has the value of the base; every key the patch mentions has the patch's
  value, except that an object-valued \<open>env\<close> is spread over the \<open>env\<close> of the base (over
  \<open>{}\<close> when the base has none that is an object); and in a spread an entry present on
  both sides has the value of the second.
\<close>

lemma mergeProviderSettings_without_proto_key:
  assumes doc: "is_settings_doc patch"
    and np: "''__proto__'' \<notin> fst ` set (object_entries patch)"
  shows "map_of (mergeProviderSettingsIntoClaudeSettings base patch) k
           = (case map_of (object_entries patch) k of
                None \<Rightarrow> map_of (object_entries base) k
              | Some v \<Rightarrow> Some (merged_value (object_entries base) k v))"
proof -
  from doc obtain kvs where patch: "patch = JObj kvs" and dist: "distinct (map fst kvs)"
    by (cases patch) auto
  have own: "mergeProviderSettingsIntoClaudeSettings base (JObj kvs) = foldl own_step (object_entries base) kvs"
    using np by (simp add: mergeProviderSettingsIntoClaudeSettings_def patch foldl_merge_step_own)
  show ?thesis
    unfolding patch own
  proof (cases "map_of kvs k")
    case None
    then have "k \<notin> fst ` set kvs" by (simp add: map_of_eq_None_iff)
    then show "map_of (foldl own_step (object_entries base) kvs) k
           = (case map_of (object_entries (JObj kvs)) k of
                None \<Rightarrow> map_of (object_entries base) k
              | Some v \<Rightarrow> Some (merged_value (object_entries base) k v))"
      using None by (simp add: foldl_own_step_other)
  next
    case (Some v)
    then have "(k, v) \<in> set kvs" by (rule map_of_SomeD)
    then show "map_of (foldl own_step (object_entries base) kvs) k
           = (case map_of (object_entries (JObj kvs)) k of
                None \<Rightarrow> map_of (object_entries base) k
              | Some v \<Rightarrow> Some (merged_value (object_entries base) k v))"
      using Some dist by (simp add: foldl_own_step_member)
  qed
qed

lemma merged_value_cases:
  "merged_value next k v =
     (case v of
        JObj e \<Rightarrow> if k = ''env''
                  then JObj (spread (case map_of next ''env'' of Some b \<Rightarrow> object_entries b | None \<Rightarrow> []) e)
                  else v
      | _ \<Rightarrow> v)"
  by (simp add: merged_value_def)

text \<open>
  C6 fails on the code: a patch with the key \<open>__proto__\<close> (an own property after
  \<open>JSON.parse\<close>) and a scalar value. \<open>next['__proto__'] = 'x'\<close> goes to the accessor
  of \<open>Object.prototype\<close>, which ignores a string: the result has no such key, where the
  claim has the key take the patch's value.
\<close>

theorem mergeProviderSettings_drops_proto_key:
  "map_of (object_entries (JObj [(''__proto__'', JStr ''x'')])) ''__proto__'' = Some (JStr ''x'')
   \<and> mergeProviderSettingsIntoClaudeSettings
       (JObj [(''model'', JStr ''sonnet'')]) (JObj [(''__proto__'', JStr ''x'')])
     = [(''model'', JStr ''sonnet'')]"
  by (simp add: mergeProviderSettingsIntoClaudeSettings_def merge_step_def)

section \<open>Behaviour of the bridge supervisor\<close>

lemma bridge_run_snoc: "bridge_run (evs @ [e]) = bridge_step (bridge_run evs) e"
  by (simp add: bridge_run_def)

lemma crash_cycles_Suc: "crash_cycles (Suc n) = crash_cycles n @ [Exit (Some 1), Timer]"
proof -
  have "concat (replicate (Suc n) xs) = concat (replicate n xs) @ xs" for xs :: "bridge_event list"
    by (induction n) simp_all
  then show ?thesis by (simp add: crash_cycles_def)
qed

text \<open>
  A supervisor that was started once and whose child then crashes \<open>n\<close> times in a row:
  every restart timer was set to 1000 ms, each one spawned a new child, the counter is
  back at 0 and the failure notification was never shown.
\<close>

lemma crash_cycles_state:
  "bridge_run (Start # crash_cycles n) =
     \<lparr> proc = Some n, isRunning = True, restartCount = 0, spawned = Suc n,
       pending = [], delays = replicate n 1000, errorsShown = 0 \<rparr>"
proof (induction n)
  case 0
  show ?case
    by (simp add: bridge_run_def crash_cycles_def bridge_init_def start_def)
next
  case (Suc n)
  have "bridge_run (Start # crash_cycles (Suc n))
          = on_timer (on_exit (Some 1) (bridge_run (Start # crash_cycles n)))"
    by (simp add: crash_cycles_Suc bridge_run_def)
  also have "\<dots> = \<lparr> proc = Some (Suc n), isRunning = True, restartCount = 0,
                      spawned = Suc (Suc n), pending = [],
                      delays = replicate n 1000 @ [1000], errorsShown = 0 \<rparr>"
    by (simp add: Suc on_exit_def on_timer_def start_def maxRestarts_def)
  finally show ?case
    by (simp add: replicate_append_same)
qed

text \<open>
  C2. Four consecutive non-zero exits: the supervisor restarts the child four times,
  every time after the same delay of 1000 ms, and it neither stops retrying nor shows
  the error, because \<open>start()\<close> sets the retry counter back to 0 at every restart.
\<close>

theorem supervisor_never_exhausts_retries:
  "delays (bridge_run (Start # crash_cycles 4)) = [1000, 1000, 1000, 1000]
   \<and> spawned (bridge_run (Start # crash_cycles 4)) = 5
   \<and> isRunning (bridge_run (Start # crash_cycles 4))
   \<and> restartCount (bridge_run (Start # crash_cycles 4)) = 0
   \<and> errorsShown (bridge_run (Start # crash_cycles 4)) = 0"
  by (simp add: crash_cycles_state numeral_eq_Suc)

text \<open>
  C3. The child exits with code 1, which sets the restart timer; \<open>stop()\<close> is called
  before the timer fires; the timer then fires and a second child is spawned and runs.
\<close>

theorem stop_does_not_cancel_pending_restart:
  "pending (bridge_run [Start, Exit (Some 1), Stop]) = [1000]
   \<and> \<not> isRunning (bridge_run [Start, Exit (Some 1), Stop])
   \<and> isRunning (bridge_run [Start, Exit (Some 1), Stop, Timer])
   \<and> spawned (bridge_run [Start, Exit (Some 1), Stop, Timer]) = 2"
  by (simp add: bridge_run_def bridge_init_def start_def on_exit_def stop_def on_timer_def
      maxRestarts_def)

text \<open>
  When \<open>stop()\<close> finds the child running, the exit of the killed child sets no timer:
  the counter is at its maximum.
\<close>

lemma stop_running_child_sets_no_timer:
  "isRunning b \<Longrightarrow> proc b = Some p \<Longrightarrow>
     pending (on_exit code (stop b)) = pending b \<and> \<not> isRunning (on_exit code (stop b))"
  by (simp add: stop_def on_exit_def maxRestarts_def)

section \<open>Properties of the session stores\<close>

lemma has_truthy_delete: "\<not> has_truthy (AList.delete k store) k"
  by (simp add: has_truthy_def delete_conv')

lemma map_of_delete_other: "t \<noteq> k \<Longrightarrow> map_of (AList.delete k store) t = map_of store t"
  by (simp add: delete_conv')

lemma map_of_update_other: "t \<noteq> k \<Longrightarrow> map_of (AList.update k v store) t = map_of store t"
  by (simp add: update_conv')

lemma key_not_in_delete: "k \<notin> fst ` set (AList.delete k store)"
  by (rule delete_notin_dom)

lemma all_truthy_has_truthy:
  "all_truthy store \<Longrightarrow> has_truthy store k \<longleftrightarrow> k \<in> fst ` set store"
proof -
  assume a: "all_truthy store"
  show ?thesis
  proof (cases "map_of store k")
    case None
    then have "k \<notin> fst ` set store" by (simp add: map_of_eq_None_iff)
    with None show ?thesis by (simp add: has_truthy_def)
  next
    case (Some v)
    then have mem: "(k, v) \<in> set store" by (rule map_of_SomeD)
    with a have "truthy v" by (auto simp: all_truthy_def list_all_iff)
    moreover from mem have "k \<in> fst ` set store" by force
    ultimately show ?thesis using Some by (simp add: has_truthy_def)
  qed
qed

lemma all_truthy_delete: "all_truthy store \<Longrightarrow> all_truthy (AList.delete k store)"
  by (auto simp: all_truthy_def list_all_iff AList.delete_eq)

lemma all_truthy_update: "all_truthy store \<Longrightarrow> truthy v \<Longrightarrow> all_truthy (AList.update k v store)"
  by (induction store) (auto simp: all_truthy_def)

lemma handleToggleFavorite_keeps_all_truthy:
  "all_truthy (favoritesFile d) \<Longrightarrow>
     all_truthy (favoritesFile (fst (handleToggleFavorite now content rid d)))"
  by (simp add: handleToggleFavorite_def Let_def all_truthy_delete all_truthy_update)

lemma handleDeleteSession_keeps_all_truthy:
  "all_truthy (favoritesFile d) \<Longrightarrow> all_truthy (titlesFile d) \<Longrightarrow>
     all_truthy (favoritesFile (fst (handleDeleteSession content rid d)))
     \<and> all_truthy (titlesFile (fst (handleDeleteSession content rid d)))"
  by (simp add: handleDeleteSession_def Let_def all_truthy_delete)

lemma found_truthy_other_names:
  "k \<notin> set proto_names \<Longrightarrow> found_truthy (js_get store k) = has_truthy store k"
  by (simp add: js_get_def has_truthy_def split: option.splits)

text \<open>
  For a session id that is not the name of a member of \<open>Object.prototype\<close>: toggling the
  favorite flag of session \<open>s\<close> turns "\<open>s\<close> is a favorite" into its opposite and leaves
  the entry of every other session, and every other file, as it was; in a store whose
  entries are all truthy, "is a favorite" is "has an entry".
\<close>

lemma handleToggleFavorite_other_names:
  assumes "truthy (sessionIdOf content)" and "js_String (sessionIdOf content) \<notin> set proto_names"
  shows "(has_truthy (favoritesFile (fst (handleToggleFavorite now content rid d))) (js_String (sessionIdOf content))
            \<longleftrightarrow> \<not> has_truthy (favoritesFile d) (js_String (sessionIdOf content)))
       \<and> (\<forall>t. t \<noteq> js_String (sessionIdOf content) \<longrightarrow>
            map_of (favoritesFile (fst (handleToggleFavorite now content rid d))) t = map_of (favoritesFile d) t)
       \<and> (all_truthy (favoritesFile d) \<longrightarrow>
            (js_String (sessionIdOf content) \<in> fst ` set (favoritesFile (fst (handleToggleFavorite now content rid d)))
               \<longleftrightarrow> js_String (sessionIdOf content) \<notin> fst ` set (favoritesFile d)))
       \<and> (fst (handleToggleFavorite now content rid d)) \<lparr> favoritesFile := favoritesFile d \<rparr> = d"
proof -
  let ?s = "js_String (sessionIdOf content)"
  let ?d' = "fst (handleToggleFavorite now content rid d)"
  have fav: "favoritesFile ?d' =
      (if has_truthy (favoritesFile d) ?s then AList.delete ?s (favoritesFile d)
       else AList.update ?s (JObj [(''favoritedAt'', JNum now)]) (favoritesFile d))"
    using assms by (simp add: handleToggleFavorite_def Let_def found_truthy_other_names)
  have flip: "has_truthy (favoritesFile ?d') ?s \<longleftrightarrow> \<not> has_truthy (favoritesFile d) ?s"
    by (simp add: fav has_truthy_delete) (simp add: has_truthy_def update_conv')
  have others: "\<forall>t. t \<noteq> ?s \<longrightarrow> map_of (favoritesFile ?d') t = map_of (favoritesFile d) t"
    by (simp add: fav map_of_delete_other map_of_update_other)
  have keys: "all_truthy (favoritesFile d) \<longrightarrow>
      (?s \<in> fst ` set (favoritesFile ?d') \<longleftrightarrow> ?s \<notin> fst ` set (favoritesFile d))"
  proof
    assume a: "all_truthy (favoritesFile d)"
    then have "all_truthy (favoritesFile ?d')" by (rule handleToggleFavorite_keeps_all_truthy)
    then have "?s \<in> fst ` set (favoritesFile ?d') \<longleftrightarrow> has_truthy (favoritesFile ?d') ?s"
      by (simp add: all_truthy_has_truthy)
    also have "\<dots> \<longleftrightarrow> \<not> has_truthy (favoritesFile d) ?s" by (rule flip)
    also have "\<dots> \<longleftrightarrow> ?s \<notin> fst ` set (favoritesFile d)"
      using a by (simp add: all_truthy_has_truthy)
    finally show "?s \<in> fst ` set (favoritesFile ?d') \<longleftrightarrow> ?s \<notin> fst ` set (favoritesFile d)" .
  qed
  have frame: "?d' \<lparr> favoritesFile := favoritesFile d \<rparr> = d"
    using assms by (simp add: handleToggleFavorite_def Let_def)
  from flip others keys frame show ?thesis by blast
qed

text \<open>The entries of the other sessions are unchanged for every session id.\<close>

lemma handleToggleFavorite_frame:
  assumes "t \<noteq> js_String (sessionIdOf content)"
  shows "map_of (favoritesFile (fst (handleToggleFavorite now content rid d))) t = map_of (favoritesFile d) t"
  using assms
  by (simp add: handleToggleFavorite_def Let_def map_of_delete_other map_of_update_other)

text \<open>
  C10 fails on the code: for the session id \<open>constructor\<close> and an empty favorites map.
  \<open>favorites['constructor']\<close> is the inherited function \<open>Object\<close>, so the session counts
  as a favorite, \<open>delete\<close> finds no own property to remove, and the reply says
  \<open>favorite: false\<close>: the id is absent from the map before the call and after it, where
  the claim has it present after the call.
\<close>

theorem handleToggleFavorite_inherited_name_never_added:
  "handleToggleFavorite 7 (JStr ''constructor'') (Some ''r'')
     \<lparr> favoritesFile = [], titlesFile = [], settingsFile = [], configFile = [], providersFile = [],
       codexProvidersFile = [], claudeSettingsFile = None, claudeProjects = [] \<rparr>
   = (\<lparr> favoritesFile = [], titlesFile = [], settingsFile = [], configFile = [], providersFile = [],
        codexProvidersFile = [], claudeSettingsFile = None, claudeProjects = [] \<rparr>,
      [sendToHost ''favoriteToggled''
         (JObj [(''sessionId'', JStr ''constructor''), (''favorite'', JBool False)]) (Some ''r'')])"
  by (simp add: handleToggleFavorite_def sessionIdOf_def js_get_def proto_names_def)

text \<open>
  C9. After a successful \<open>handleDeleteSession\<close> for session \<open>s\<close> (the reply is
  \<open>sessionDeleted\<close>), \<open>s\<close> is neither a favorite nor has a custom title, in stores whose
  entries are all truthy \<open>s\<close> has no entry in either store, and the entries of every other
  session are unchanged in both.
\<close>

theorem handleDeleteSession_leaves_no_auxiliary_state:
  assumes "truthy (sessionIdOf content)"
  shows "snd (handleDeleteSession content rid d)
           = [sendToHost ''sessionDeleted'' (JObj [(''sessionId'', sessionIdOf content)]) rid]
       \<and> \<not> has_truthy (favoritesFile (fst (handleDeleteSession content rid d))) (js_String (sessionIdOf content))
       \<and> \<not> has_truthy (titlesFile (fst (handleDeleteSession content rid d))) (js_String (sessionIdOf content))
       \<and> (all_truthy (favoritesFile d) \<longrightarrow>
            js_String (sessionIdOf content) \<notin> fst ` set (favoritesFile (fst (handleDeleteSession content rid d))))
       \<and> (all_truthy (titlesFile d) \<longrightarrow>
            js_String (sessionIdOf content) \<notin> fst ` set (titlesFile (fst (handleDeleteSession content rid d))))
       \<and> (\<forall>t. t \<noteq> js_String (sessionIdOf content) \<longrightarrow>
            map_of (favoritesFile (fst (handleDeleteSession content rid d))) t = map_of (favoritesFile d) t
            \<and> map_of (titlesFile (fst (handleDeleteSession content rid d))) t = map_of (titlesFile d) t)"
proof -
  let ?s = "js_String (sessionIdOf content)"
  let ?d' = "fst (handleDeleteSession content rid d)"
  have fav: "favoritesFile ?d' =
      (if has_truthy (favoritesFile d) ?s then AList.delete ?s (favoritesFile d) else favoritesFile d)"
    using assms by (simp add: handleDeleteSession_def Let_def)
  have tit: "titlesFile ?d' =
      (if has_truthy (titlesFile d) ?s then AList.delete ?s (titlesFile d) else titlesFile d)"
    using assms by (simp add: handleDeleteSession_def Let_def)
  have out: "snd (handleDeleteSession content rid d)
           = [sendToHost ''sessionDeleted'' (JObj [(''sessionId'', sessionIdOf content)]) rid]"
    using assms by (simp add: handleDeleteSession_def Let_def)
  have nf: "\<not> has_truthy (favoritesFile ?d') ?s"
    by (simp add: fav has_truthy_delete)
  have nt: "\<not> has_truthy (titlesFile ?d') ?s"
    by (simp add: tit has_truthy_delete)
  have kf: "all_truthy (favoritesFile d) \<longrightarrow> ?s \<notin> fst ` set (favoritesFile ?d')"
    using key_not_in_delete [of ?s "favoritesFile d"]
    by (simp add: fav all_truthy_has_truthy del: set_map)
  have kt: "all_truthy (titlesFile d) \<longrightarrow> ?s \<notin> fst ` set (titlesFile ?d')"
    using key_not_in_delete [of ?s "titlesFile d"]
    by (simp add: tit all_truthy_has_truthy del: set_map)
  have others: "\<forall>t. t \<noteq> ?s \<longrightarrow>
            map_of (favoritesFile ?d') t = map_of (favoritesFile d) t
            \<and> map_of (titlesFile ?d') t = map_of (titlesFile d) t"
    by (simp add: fav tit map_of_delete_other)
  from out nf nt kf kt others show ?thesis by blast
qed

theorem handleDeleteSession_leaves_no_auxiliary_state_witness:
  "truthy (sessionIdOf (JStr ''s1''))
   \<and> all_truthy [(''s1'', JObj [(''favoritedAt'', JNum 5)]), (''s2'', JObj [(''favoritedAt'', JNum 6)])]
   \<and> all_truthy [(''s2'', JObj [(''customTitle'', JStr ''b'')]), (''s1'', JObj [(''customTitle'', JStr ''a'')])]
   \<and> fst (handleDeleteSession (JStr ''s1'') (Some ''r'')
        \<lparr> favoritesFile = [(''s1'', JObj [(''favoritedAt'', JNum 5)]), (''s2'', JObj [(''favoritedAt'', JNum 6)])],
          titlesFile = [(''s2'', JObj [(''customTitle'', JStr ''b'')]), (''s1'', JObj [(''customTitle'', JStr ''a'')])],
          settingsFile = [], configFile = [], providersFile = [],
          codexProvidersFile = [], claudeSettingsFile = None,
          claudeProjects = [(''p'', [''s1.jsonl'', ''s2.jsonl''])] \<rparr>)
     = \<lparr> favoritesFile = [(''s2'', JObj [(''favoritedAt'', JNum 6)])],
          titlesFile = [(''s2'', JObj [(''customTitle'', JStr ''b'')])],
          settingsFile = [], configFile = [], providersFile = [],
          codexProvidersFile = [], claudeSettingsFile = None,
          claudeProjects = [(''p'', [''s2.jsonl''])] \<rparr>"
proof -
  have t: "truthy (sessionIdOf (JStr ''s1''))"
    by (simp add: sessionIdOf_def)
  show ?thesis
    using t handleDeleteSession_leaves_no_auxiliary_state [OF t, of "Some ''r''"
        "\<lparr> favoritesFile = [(''s1'', JObj [(''favoritedAt'', JNum 5)]), (''s2'', JObj [(''favoritedAt'', JNum 6)])],
          titlesFile = [(''s2'', JObj [(''customTitle'', JStr ''b'')]), (''s1'', JObj [(''customTitle'', JStr ''a'')])],
          settingsFile = [], configFile = [], providersFile = [],
          codexProvidersFile = [], claudeSettingsFile = None,
          claudeProjects = [(''p'', [''s1.jsonl'', ''s2.jsonl''])] \<rparr>"]
    by (simp add: handleDeleteSession_def sessionIdOf_def has_truthy_def all_truthy_def)
qed

section \<open>Properties of the active-provider pointer\<close>

lemma section_of_update_same [simp]: "section_of (AList.update k (JObj c) cfg) k = Some c"
  by (simp add: section_of_def update_conv')

lemma section_of_ensure_providers: "\<exists>p. section_of (ensure_providers c) ''providers'' = Some p"
  by (cases "section_of c ''providers''") (simp_all add: ensure_providers_def)

lemma current_ensure_claude_current:
  "\<exists>a. a \<noteq> [] \<and> map_of (ensure_claude_current c) ''current'' = Some (JStr a)"
proof (cases "nonempty_string (map_of c ''current'')")
  case None
  then show ?thesis
    by (simp add: ensure_claude_current_def update_conv' localProviderId_def)
next
  case (Some s)
  then have "s \<noteq> [] \<and> map_of c ''current'' = Some (JStr s)"
    by (cases "(map_of c ''current'')" rule: nonempty_string.cases) (simp_all split: if_splits)
  with Some show ?thesis by (auto simp: ensure_claude_current_def)
qed

lemma providers_ensure_claude_current:
  "section_of (ensure_claude_current c) ''providers'' = section_of c ''providers''"
  by (cases "nonempty_string (map_of c ''current'')")
     (simp_all add: ensure_claude_current_def section_of_def update_conv')

lemma section_of_ensureClaudeSection:
  "\<exists>c. section_of (ensureClaudeSection cfg) ''claude'' = Some c
       \<and> (\<exists>a. a \<noteq> [] \<and> map_of c ''current'' = Some (JStr a))
       \<and> (\<exists>p. section_of c ''providers'' = Some p)"
  using current_ensure_claude_current section_of_ensure_providers
  by (simp add: ensureClaudeSection_def providers_ensure_claude_current)

lemma claude_current_ensureClaudeSection:
  "\<exists>a. a \<noteq> [] \<and> claude_current (ensureClaudeSection cfg) = Some (JStr a)"
  using section_of_ensureClaudeSection [of cfg] by (auto simp: claude_current_def)

lemma claude_current_set:
  "claude_current (set_claude_current v (ensureClaudeSection cfg)) = Some v"
  using section_of_ensureClaudeSection [of cfg]
  by (auto simp: claude_current_def set_claude_current_def update_conv')

lemma ensureClaudeSection_keeps_current:
  assumes "claude_current cfg = Some (JStr a)" and "a \<noteq> []"
  shows "claude_current (ensureClaudeSection cfg) = Some (JStr a)"
proof -
  from assms obtain c where c: "section_of cfg ''claude'' = Some c" and cur: "map_of c ''current'' = Some (JStr a)"
    by (auto simp: claude_current_def split: option.splits)
  have "map_of (ensure_providers c) ''current'' = Some (JStr a)"
    using cur by (cases "section_of c ''providers''") (simp_all add: ensure_providers_def update_conv')
  then have "map_of (ensure_claude_current (ensure_providers c)) ''current'' = Some (JStr a)"
    using assms(2) by (simp add: ensure_claude_current_def)
  then show ?thesis
    using c by (simp add: ensureClaudeSection_def claude_current_def section_or_empty_def)
qed

lemma claude_current_delete_claude_provider:
  "claude_current (delete_claude_provider ident (ensureClaudeSection cfg))
     = claude_current (ensureClaudeSection cfg)"
  using section_of_ensureClaudeSection [of cfg]
  by (auto simp: delete_claude_provider_def claude_current_def update_conv')

text \<open>The configuration always names an active provider after \<open>ensureClaudeSection\<close>, so
  \<open>getClaudeProvidersWithActiveFlag\<close> never seeds it from the legacy setting and writes
  nothing.\<close>

lemma getClaudeProvidersWithActiveFlag_reads:
  "fst (getClaudeProvidersWithActiveFlag now d) = d
   \<and> claude_current (ensureClaudeSection (configFile d))
       = Some (JStr (fst (snd (getClaudeProvidersWithActiveFlag now d))))"
proof -
  obtain a where a: "a \<noteq> []" "claude_current (ensureClaudeSection (configFile d)) = Some (JStr a)"
    using claude_current_ensureClaudeSection by blast
  then show ?thesis
    by (simp add: getClaudeProvidersWithActiveFlag_def Let_def)
qed

lemma handleGetActiveClaudeProvider_reads: "fst (handleGetActiveClaudeProvider now rid d) = d"
proof -
  obtain d' a ps where g: "getClaudeProvidersWithActiveFlag now d = (d', a, ps)"
    by (cases "getClaudeProvidersWithActiveFlag now d") auto
  with getClaudeProvidersWithActiveFlag_reads [of now d] have "d' = d" by simp
  with g show ?thesis by (simp add: handleGetActiveClaudeProvider_def)
qed

lemma getClaudeProvidersWithActiveFlag_fstD:
  "getClaudeProvidersWithActiveFlag now d = (d', a, ps) \<Longrightarrow> d' = d"
  using getClaudeProvidersWithActiveFlag_reads [of now d] by simp

lemma handleGetActiveClaudeProvider_fstD:
  "handleGetActiveClaudeProvider now rid d = (d', out) \<Longrightarrow> d' = d"
  using handleGetActiveClaudeProvider_reads [of now rid d] by simp

lemma handleSwitchClaudeProvider_files:
  assumes "truthy (switch_id content)"
  shows "configFile (fst (handleSwitchClaudeProvider now content rid d))
           = set_claude_current (switch_id content) (ensureClaudeSection (configFile d))
       \<and> settingsFile (fst (handleSwitchClaudeProvider now content rid d))
           = AList.update ''activeClaudeProviderId'' (switch_id content) (settingsFile d)"
  using assms
  by (simp add: handleSwitchClaudeProvider_def Let_def split_beta
      syncLegacyProviderFilesFromConfig_def
      handleGetActiveClaudeProvider_reads getClaudeProvidersWithActiveFlag_reads
      split: option.splits)

lemma handleDeleteProvider_files:
  assumes ident: "get_prop content ''id'' = Some (JStr s)"
    and active: "fst (snd (getClaudeProvidersWithActiveFlag now d)) = s"
  shows "configFile (fst (handleDeleteProvider now content rid d))
           = set_claude_current (JStr localProviderId)
               (delete_claude_provider s (ensureClaudeSection (configFile d)))
       \<and> settingsFile (fst (handleDeleteProvider now content rid d))
           = AList.update ''activeClaudeProviderId'' (JStr localProviderId) (settingsFile d)"
proof -
  let ?cfg = "delete_claude_provider s (ensureClaudeSection (configFile d))"
  from active have cur: "claude_current (ensureClaudeSection (configFile d)) = Some (JStr s)"
    using getClaudeProvidersWithActiveFlag_reads [of now d] by simp
  moreover obtain a where "a \<noteq> []" "claude_current (ensureClaudeSection (configFile d)) = Some (JStr a)"
    using claude_current_ensureClaudeSection by blast
  ultimately have ne: "s \<noteq> []" by simp
  have act: "nonempty_string (claude_current ?cfg) = Some s"
    using cur ne by (simp add: claude_current_delete_claude_provider)
  show ?thesis
    using ident act
    by (simp add: handleDeleteProvider_def Let_def split_beta
        syncLegacyProviderFilesFromConfig_def
        handleGetActiveClaudeProvider_reads getClaudeProvidersWithActiveFlag_reads)
qed

lemma claude_current_set_after_delete:
  "claude_current (set_claude_current v (delete_claude_provider s (ensureClaudeSection cfg))) = Some v"
  using section_of_ensureClaudeSection [of cfg]
  by (auto simp: claude_current_def set_claude_current_def delete_claude_provider_def update_conv')

lemma active_id_of_current:
  assumes "claude_current (configFile d) = Some (JStr a)" and "a \<noteq> []"
  shows "fst (snd (getClaudeProvidersWithActiveFlag now d)) = a"
  using getClaudeProvidersWithActiveFlag_reads [of now d]
    ensureClaudeSection_keeps_current [OF assms]
  by simp

lemma localProviderId_nonempty: "localProviderId \<noteq> []"
  by (simp add: localProviderId_def)

subsection \<open>What the two read handlers send\<close>

lemma handleGetCurrentClaudeConfig_sends:
  "map (\<lambda>e. (etype e, get_prop (payload e) ''providerId'', requestId e)) (handleGetCurrentClaudeConfig rid d)
     = [(''currentClaudeConfigLoaded'', Some (JStr (legacy_active_id d)), rid)]"
  by (simp add: handleGetCurrentClaudeConfig_def split_beta Let_def sendToHost_def)

lemma id_of_normalized: "map_of (normalizeProviderEntry now k v) ''id'' = Some (JStr k)"
  by (simp add: normalizeProviderEntry_def Let_def update_conv')

lemma find_flagged_provider:
  "find (\<lambda>p. get_prop p ''id'' = Some (JStr a))
        (map (\<lambda>p. JObj (AList.update ''isActive'' (JBool (map_of p ''id'' = Some (JStr act))) p))
             (providers_list now po))
     = map_option (\<lambda>kv. JObj (AList.update ''isActive'' (JBool (fst kv = act))
                                  (normalizeProviderEntry now (fst kv) (snd kv))))
         (find (\<lambda>kv. fst kv = a) (filter (\<lambda>kv. fst kv \<noteq> []) po))"
  by (induction po) (simp_all add: providers_list_def id_of_normalized update_conv')

lemma find_key:
  "find (\<lambda>kv. fst kv = a) (filter (\<lambda>kv. fst kv \<noteq> []) po)
     = (if a \<noteq> [] \<and> a \<in> fst ` set po then find (\<lambda>kv. fst kv = a) po else None)"
  by (induction po) auto

lemma find_key_Some:
  "a \<in> fst ` set po \<Longrightarrow> \<exists>v. find (\<lambda>kv. fst kv = a) po = Some (a, v)"
  by (induction po) auto

lemma providers_of_section_ensureClaudeSection:
  "providers_of_section (ensureClaudeSection cfg) ''claude'' = providers_of_section cfg ''claude''"
proof (cases "section_of cfg ''claude''")
  case None
  have "section_of (ensure_claude_current (ensure_providers [])) ''providers'' = Some []"
    by (simp only: providers_ensure_claude_current) (simp add: ensure_providers_def section_of_def)
  then show ?thesis
    using None by (simp add: providers_of_section_def ensureClaudeSection_def section_or_empty_def)
next
  case (Some c)
  then show ?thesis
    by (cases "section_of c ''providers''")
       (simp_all add: providers_of_section_def ensureClaudeSection_def section_or_empty_def
          providers_ensure_claude_current ensure_providers_def)
qed

text \<open>
  \<open>handleGetActiveClaudeProvider\<close> when the configuration names \<open>a\<close> as the active
  provider: the local provider for the local id, the provider \<open>a\<close> of the configuration
  when there is one, \<open>null\<close> when there is none.
\<close>

lemma handleGetActiveClaudeProvider_sends:
  assumes cur: "claude_current (configFile d) = Some (JStr a)" and ne: "a \<noteq> []"
  shows "\<exists>P. snd (handleGetActiveClaudeProvider now rid d) = [sendToHost ''activeProviderLoaded'' P rid]
           \<and> (if a = localProviderId \<or> a \<in> fst ` set (providers_of_section (configFile d) ''claude'')
               then get_prop P ''id'' = Some (JStr a) else P = JNull)"
proof -
  let ?cfg = "ensureClaudeSection (configFile d)"
  have ecur: "claude_current ?cfg = Some (JStr a)"
    using cur ne by (rule ensureClaudeSection_keeps_current)
  define ps where "ps = map (\<lambda>p. JObj (AList.update ''isActive'' (JBool (map_of p ''id'' = Some (JStr a))) p))
                          (getClaudeProvidersFromConfig now ?cfg)"
  define localEntry where "localEntry = JObj [(''id'', JStr localProviderId), (''name'', JStr text_local_name),
                             (''isActive'', JBool (a = localProviderId)), (''isLocalProvider'', JBool True)]"
  have g: "getClaudeProvidersWithActiveFlag now d = (d, a, localEntry # ps)"
    using ecur ne by (simp add: getClaudeProvidersWithActiveFlag_def Let_def ps_def localEntry_def)
  show ?thesis
  proof (cases "a = localProviderId")
    case True
    have "get_prop (buildLocalProvider (claude_settings_or_empty d)) ''id'' = Some (JStr localProviderId)"
      by (simp add: buildLocalProvider_def split_beta)
    moreover have "snd (handleGetActiveClaudeProvider now rid d)
        = [sendToHost ''activeProviderLoaded'' (buildLocalProvider (claude_settings_or_empty d)) rid]"
      using True g by (simp add: handleGetActiveClaudeProvider_def)
    ultimately show ?thesis
      using True by (intro exI [of _ "buildLocalProvider (claude_settings_or_empty d)"]) simp
  next
    case False
    have out: "snd (handleGetActiveClaudeProvider now rid d)
                 = [sendToHost ''activeProviderLoaded'' (find_provider a (localEntry # ps)) rid]"
      using False g by (simp add: handleGetActiveClaudeProvider_def)
    have po: "providers_of_section (ensureClaudeSection ?cfg) ''claude'' = providers_of_section (configFile d) ''claude''"
      by (simp add: providers_of_section_ensureClaudeSection)
    have h1: "find (\<lambda>p. get_prop p ''id'' = Some (JStr a)) (localEntry # ps)
                = find (\<lambda>p. get_prop p ''id'' = Some (JStr a)) ps"
      using False by (auto simp: localEntry_def)
    have h2: "find (\<lambda>p. get_prop p ''id'' = Some (JStr a)) ps
           = map_option (\<lambda>kv. JObj (AList.update ''isActive'' (JBool (fst kv = a))
                                  (normalizeProviderEntry now (fst kv) (snd kv))))
               (find (\<lambda>kv. fst kv = a)
                  (filter (\<lambda>kv. fst kv \<noteq> []) (providers_of_section (ensureClaudeSection ?cfg) ''claude'')))"
      unfolding ps_def getClaudeProvidersFromConfig_def by (rule find_flagged_provider)
    have h3: "find (\<lambda>kv. fst kv = a)
                  (filter (\<lambda>kv. fst kv \<noteq> []) (providers_of_section (configFile d) ''claude''))
           = (if a \<in> fst ` set (providers_of_section (configFile d) ''claude'')
              then find (\<lambda>kv. fst kv = a) (providers_of_section (configFile d) ''claude'') else None)"
      using ne by (simp only: find_key) simp
    have found: "find (\<lambda>p. get_prop p ''id'' = Some (JStr a)) (localEntry # ps)
           = map_option (\<lambda>kv. JObj (AList.update ''isActive'' (JBool (fst kv = a))
                                  (normalizeProviderEntry now (fst kv) (snd kv))))
               (if a \<in> fst ` set (providers_of_section (configFile d) ''claude'')
                then find (\<lambda>kv. fst kv = a) (providers_of_section (configFile d) ''claude'') else None)"
      by (simp only: h1 h2 po h3)
    show ?thesis
    proof (cases "a \<in> fst ` set (providers_of_section (configFile d) ''claude'')")
      case True
      from find_key_Some [OF True]
      obtain v where "find (\<lambda>kv. fst kv = a) (providers_of_section (configFile d) ''claude'') = Some (a, v)"
        by (rule exE)
      with found True have "find (\<lambda>p. get_prop p ''id'' = Some (JStr a)) (localEntry # ps)
             = Some (JObj (AList.update ''isActive'' (JBool True) (normalizeProviderEntry now a v)))"
        by (simp only: if_True option.map fst_conv snd_conv simp_thms)
      then have "find_provider a (localEntry # ps)
             = JObj (AList.update ''isActive'' (JBool True) (normalizeProviderEntry now a v))"
        by (simp only: find_provider_def option.case)
      then have "get_prop (find_provider a (localEntry # ps)) ''id'' = Some (JStr a)"
        by (simp add: update_conv' id_of_normalized)
      with out True show ?thesis
        by (intro exI [of _ "find_provider a (localEntry # ps)"]) simp
    next
      case no: False
      with found have "find (\<lambda>p. get_prop p ''id'' = Some (JStr a)) (localEntry # ps) = None"
        by (simp only: if_False option.map)
      then have "find_provider a (localEntry # ps) = JNull"
        by (simp only: find_provider_def option.case)
      with out no False show ?thesis
        by (intro exI [of _ "find_provider a (localEntry # ps)"]) simp
    qed
  qed
qed

lemma providers_of_section_set_claude_current:
  "providers_of_section (set_claude_current v (ensureClaudeSection cfg)) ''claude''
     = providers_of_section cfg ''claude''"
proof -
  obtain c p where c: "section_of (ensureClaudeSection cfg) ''claude'' = Some c"
    and p: "section_of c ''providers'' = Some p"
    using section_of_ensureClaudeSection [of cfg] by blast
  have "providers_of_section (set_claude_current v (ensureClaudeSection cfg)) ''claude'' = p"
    using c p by (simp add: providers_of_section_def set_claude_current_def section_of_def update_conv')
  moreover have "providers_of_section (ensureClaudeSection cfg) ''claude'' = p"
    using c p by (simp add: providers_of_section_def)
  ultimately show ?thesis by (simp add: providers_of_section_ensureClaudeSection)
qed

text \<open>The reply of \<open>handleSwitchClaudeProvider\<close> ends with what the two read handlers send
  for the files it leaves.\<close>

lemma handleSwitchClaudeProvider_reply:
  assumes "truthy (switch_id content)"
  shows "\<exists>pre. snd (handleSwitchClaudeProvider now content rid d)
           = pre @ handleGetCurrentClaudeConfig rid (fst (handleSwitchClaudeProvider now content rid d))
                 @ snd (handleGetActiveClaudeProvider now rid (fst (handleSwitchClaudeProvider now content rid d)))"
  using assms
  by (simp add: handleSwitchClaudeProvider_def Let_def split_beta
      handleGetActiveClaudeProvider_reads getClaudeProvidersWithActiveFlag_reads)

text \<open>
  C7. Switching the active Claude provider to a non-empty string \<open>s\<close> and then reading:
  the configuration's pointer, the legacy setting and \<open>getClaudeProvidersWithActiveFlag\<close>
  give \<open>s\<close>; \<open>handleGetCurrentClaudeConfig\<close> sends \<open>providerId: s\<close>;
  \<open>handleGetActiveClaudeProvider\<close> sends the provider whose \<open>id\<close> is \<open>s\<close> (the local
  provider for the local id, \<open>null\<close> when the configuration has no provider \<open>s\<close>); and
  the reply of the switch itself ends with what these two handlers send. Deleting the
  provider that is the active one sets the pointer of the configuration and the legacy
  setting to \<open>__local_settings_json__\<close>, which is then what all these ways of reading
  give.
\<close>

theorem switch_then_read_and_delete_active_resets:
  "(plain_sections (configFile d) \<and> switch_id content = JStr s \<and> s \<noteq> [] \<longrightarrow>
       fst (snd (getClaudeProvidersWithActiveFlag now (fst (handleSwitchClaudeProvider now content rid d)))) = s
     \<and> legacy_active_id (fst (handleSwitchClaudeProvider now content rid d)) = s
     \<and> claude_current (configFile (fst (handleSwitchClaudeProvider now content rid d))) = Some (JStr s)
     \<and> map_of (settingsFile (fst (handleSwitchClaudeProvider now content rid d))) ''activeClaudeProviderId''
         = Some (JStr s)
     \<and> map (\<lambda>e. (etype e, get_prop (payload e) ''providerId'', requestId e))
           (handleGetCurrentClaudeConfig rid' (fst (handleSwitchClaudeProvider now content rid d)))
         = [(''currentClaudeConfigLoaded'', Some (JStr s), rid')]
     \<and> (\<exists>P. snd (handleGetActiveClaudeProvider now' rid' (fst (handleSwitchClaudeProvider now content rid d)))
                = [sendToHost ''activeProviderLoaded'' P rid']
              \<and> (if s = localProviderId \<or> s \<in> fst ` set (providers_of_section (configFile d) ''claude'')
                  then get_prop P ''id'' = Some (JStr s) else P = JNull))
     \<and> (\<exists>pre. snd (handleSwitchClaudeProvider now content rid d)
                = pre @ handleGetCurrentClaudeConfig rid (fst (handleSwitchClaudeProvider now content rid d))
                      @ snd (handleGetActiveClaudeProvider now rid (fst (handleSwitchClaudeProvider now content rid d)))))
   \<and> (plain_sections (configFile d) \<and> get_prop content ''id'' = Some (JStr s)
        \<and> fst (snd (getClaudeProvidersWithActiveFlag now d)) = s \<longrightarrow>
       claude_current (configFile (fst (handleDeleteProvider now content rid d))) = Some (JStr localProviderId)
     \<and> map_of (settingsFile (fst (handleDeleteProvider now content rid d))) ''activeClaudeProviderId''
         = Some (JStr localProviderId)
     \<and> fst (snd (getClaudeProvidersWithActiveFlag now (fst (handleDeleteProvider now content rid d))))
         = localProviderId
     \<and> legacy_active_id (fst (handleDeleteProvider now content rid d)) = localProviderId
     \<and> map_of (providers_of_section (configFile (fst (handleDeleteProvider now content rid d))) ''claude'') s = None
     \<and> map (\<lambda>e. (etype e, get_prop (payload e) ''providerId'', requestId e))
           (handleGetCurrentClaudeConfig rid' (fst (handleDeleteProvider now content rid d)))
         = [(''currentClaudeConfigLoaded'', Some (JStr localProviderId), rid')]
     \<and> (\<exists>P. snd (handleGetActiveClaudeProvider now' rid' (fst (handleDeleteProvider now content rid d)))
                = [sendToHost ''activeProviderLoaded'' P rid']
              \<and> get_prop P ''id'' = Some (JStr localProviderId)))"
proof (intro conjI impI)
  assume a: "plain_sections (configFile d) \<and> switch_id content = JStr s \<and> s \<noteq> []"
  let ?d' = "fst (handleSwitchClaudeProvider now content rid d)"
  from a have t: "truthy (switch_id content)" by simp
  from a have ne: "s \<noteq> []" by simp
  note files = handleSwitchClaudeProvider_files [OF t, of now rid d]
  from files a show cur: "claude_current (configFile ?d') = Some (JStr s)"
    by (simp add: claude_current_set)
  from files a show set: "map_of (settingsFile ?d') ''activeClaudeProviderId'' = Some (JStr s)"
    by (simp add: update_conv')
  from set show leg: "legacy_active_id ?d' = s"
    by (simp add: legacy_active_id_def)
  from cur a show "fst (snd (getClaudeProvidersWithActiveFlag now ?d')) = s"
    by (simp add: active_id_of_current)
  from leg show "map (\<lambda>e. (etype e, get_prop (payload e) ''providerId'', requestId e))
           (handleGetCurrentClaudeConfig rid' ?d')
         = [(''currentClaudeConfigLoaded'', Some (JStr s), rid')]"
    by (simp only: handleGetCurrentClaudeConfig_sends)
  have po: "providers_of_section (configFile ?d') ''claude'' = providers_of_section (configFile d) ''claude''"
    using files by (simp only: providers_of_section_set_claude_current)
  from handleGetActiveClaudeProvider_sends [OF cur ne, of now' rid']
  show "\<exists>P. snd (handleGetActiveClaudeProvider now' rid' ?d') = [sendToHost ''activeProviderLoaded'' P rid']
              \<and> (if s = localProviderId \<or> s \<in> fst ` set (providers_of_section (configFile d) ''claude'')
                  then get_prop P ''id'' = Some (JStr s) else P = JNull)"
    by (simp only: po)
  from handleSwitchClaudeProvider_reply [OF t, of now rid d]
  show "\<exists>pre. snd (handleSwitchClaudeProvider now content rid d)
                = pre @ handleGetCurrentClaudeConfig rid ?d' @ snd (handleGetActiveClaudeProvider now rid ?d')" .
next
  assume a: "plain_sections (configFile d) \<and> get_prop content ''id'' = Some (JStr s)
        \<and> fst (snd (getClaudeProvidersWithActiveFlag now d)) = s"
  let ?d' = "fst (handleDeleteProvider now content rid d)"
  from a have files: "configFile ?d'
           = set_claude_current (JStr localProviderId)
               (delete_claude_provider s (ensureClaudeSection (configFile d)))
       \<and> settingsFile ?d'
           = AList.update ''activeClaudeProviderId'' (JStr localProviderId) (settingsFile d)"
    using handleDeleteProvider_files [of content s now d rid] by simp
  from files show cur: "claude_current (configFile ?d') = Some (JStr localProviderId)"
    by (simp add: claude_current_set_after_delete)
  from files show set: "map_of (settingsFile ?d') ''activeClaudeProviderId'' = Some (JStr localProviderId)"
    by (simp add: update_conv')
  from set show leg: "legacy_active_id ?d' = localProviderId"
    by (simp add: legacy_active_id_def)
  from cur show "fst (snd (getClaudeProvidersWithActiveFlag now ?d')) = localProviderId"
    by (simp add: active_id_of_current localProviderId_nonempty)
  from files show "map_of (providers_of_section (configFile ?d') ''claude'') s = None"
    using section_of_ensureClaudeSection [of "configFile d"]
    by (auto simp: providers_of_section_def set_claude_current_def delete_claude_provider_def
        section_of_def update_conv' delete_conv' split: option.splits)
  from leg show "map (\<lambda>e. (etype e, get_prop (payload e) ''providerId'', requestId e))
           (handleGetCurrentClaudeConfig rid' ?d')
         = [(''currentClaudeConfigLoaded'', Some (JStr localProviderId), rid')]"
    by (simp only: handleGetCurrentClaudeConfig_sends)
  from handleGetActiveClaudeProvider_sends [OF cur localProviderId_nonempty, of now' rid']
  show "\<exists>P. snd (handleGetActiveClaudeProvider now' rid' ?d') = [sendToHost ''activeProviderLoaded'' P rid']
              \<and> get_prop P ''id'' = Some (JStr localProviderId)"
    by simp
qed

theorem switch_then_read_and_delete_active_resets_witness:
  "plain_sections [(''claude'', JObj [(''providers'', JObj [(''p1'', JObj [(''name'', JStr ''P1'')])])])]
   \<and> switch_id (JObj [(''id'', JStr ''p1'')]) = JStr ''p1'' \<and> ''p1'' \<noteq> []
   \<and> fst (snd (getClaudeProvidersWithActiveFlag 7 (fst (handleSwitchClaudeProvider 7 (JObj [(''id'', JStr ''p1'')]) (Some ''r'')
         \<lparr> favoritesFile = [], titlesFile = [], settingsFile = [],
           configFile = [(''claude'', JObj [(''providers'', JObj [(''p1'', JObj [(''name'', JStr ''P1'')])])])],
           providersFile = [], codexProvidersFile = [], claudeSettingsFile = None,
           claudeProjects = [] \<rparr>)))) = ''p1''
   \<and> map (\<lambda>e. (etype e, get_prop (payload e) ''providerId'', requestId e))
         (handleGetCurrentClaudeConfig (Some ''q'') (fst (handleSwitchClaudeProvider 7 (JObj [(''id'', JStr ''p1'')]) (Some ''r'')
         \<lparr> favoritesFile = [], titlesFile = [], settingsFile = [],
           configFile = [(''claude'', JObj [(''providers'', JObj [(''p1'', JObj [(''name'', JStr ''P1'')])])])],
           providersFile = [], codexProvidersFile = [], claudeSettingsFile = None,
           claudeProjects = [] \<rparr>)))
       = [(''currentClaudeConfigLoaded'', Some (JStr ''p1''), Some ''q'')]
   \<and> get_prop (JObj [(''id'', JStr ''p1'')]) ''id'' = Some (JStr ''p1'')
   \<and> fst (snd (getClaudeProvidersWithActiveFlag 7
         \<lparr> favoritesFile = [], titlesFile = [], settingsFile = [(''activeClaudeProviderId'', JStr ''p1'')],
           configFile = [(''claude'', JObj [(''providers'', JObj [(''p1'', JObj [(''name'', JStr ''P1'')])]),
                                           (''current'', JStr ''p1'')])],
           providersFile = [], codexProvidersFile = [], claudeSettingsFile = None,
           claudeProjects = [] \<rparr>)) = ''p1''
   \<and> claude_current (configFile (fst (handleDeleteProvider 7 (JObj [(''id'', JStr ''p1'')]) (Some ''r'')
         \<lparr> favoritesFile = [], titlesFile = [], settingsFile = [(''activeClaudeProviderId'', JStr ''p1'')],
           configFile = [(''claude'', JObj [(''providers'', JObj [(''p1'', JObj [(''name'', JStr ''P1'')])]),
                                           (''current'', JStr ''p1'')])],
           providersFile = [], codexProvidersFile = [], claudeSettingsFile = None,
           claudeProjects = [] \<rparr>))) = Some (JStr localProviderId)
   \<and> map (\<lambda>e. (etype e, get_prop (payload e) ''providerId'', requestId e))
         (handleGetCurrentClaudeConfig (Some ''q'') (fst (handleDeleteProvider 7 (JObj [(''id'', JStr ''p1'')]) (Some ''r'')
         \<lparr> favoritesFile = [], titlesFile = [], settingsFile = [(''activeClaudeProviderId'', JStr ''p1'')],
           configFile = [(''claude'', JObj [(''providers'', JObj [(''p1'', JObj [(''name'', JStr ''P1'')])]),
                                           (''current'', JStr ''p1'')])],
           providersFile = [], codexProvidersFile = [], claudeSettingsFile = None,
           claudeProjects = [] \<rparr>)))
       = [(''currentClaudeConfigLoaded'', Some (JStr localProviderId), Some ''q'')]"
proof -
  let ?cfg1 = "[(''claude'', JObj [(''providers'', JObj [(''p1'', JObj [(''name'', JStr ''P1'')])])])]"
  let ?cfg2 = "[(''claude'', JObj [(''providers'', JObj [(''p1'', JObj [(''name'', JStr ''P1'')])]),
                                           (''current'', JStr ''p1'')])]"
  let ?d1 = "\<lparr> favoritesFile = [], titlesFile = [], settingsFile = [],
           configFile = ?cfg1,
           providersFile = [], codexProvidersFile = [], claudeSettingsFile = None,
           claudeProjects = [] \<rparr>"
  let ?d2 = "\<lparr> favoritesFile = [], titlesFile = [], settingsFile = [(''activeClaudeProviderId'', JStr ''p1'')],
           configFile = ?cfg2,
           providersFile = [], codexProvidersFile = [], claudeSettingsFile = None,
           claudeProjects = [] \<rparr>"
  have p1: "plain_sections ?cfg1" and p2: "plain_sections ?cfg2"
    by (simp_all add: plain_sections_def no_array_at_def section_of_def)
  have sw: "switch_id (JObj [(''id'', JStr ''p1'')]) = JStr ''p1''"
    by (simp add: switch_id_def)
  have gp: "get_prop (JObj [(''id'', JStr ''p1'')]) ''id'' = Some (JStr ''p1'')"
    by simp
  have act: "fst (snd (getClaudeProvidersWithActiveFlag 7 ?d2)) = ''p1''"
    by (simp add: getClaudeProvidersWithActiveFlag_def Let_def ensureClaudeSection_def
        section_or_empty_def section_of_def ensure_providers_def ensure_claude_current_def
        claude_current_def)
  show ?thesis
    using p1 p2 sw gp act
      switch_then_read_and_delete_active_resets
        [of ?d1 "JObj [(''id'', JStr ''p1'')]" "''p1''" 7 "Some ''r''" "Some ''q''" 7]
      switch_then_read_and_delete_active_resets
        [of ?d2 "JObj [(''id'', JStr ''p1'')]" "''p1''" 7 "Some ''r''" "Some ''q''" 7]
    by simp
qed

section \<open>Properties of the usage statistics\<close>

lemma length_newest_first: "length (newest_first ss) = length ss"
  by (simp add: newest_first_def)

lemma sorted_newest_first: "sorted (map (\<lambda>s. - timestamp s) (newest_first ss))"
  by (simp add: newest_first_def)

lemma foldl_claude_loop_totals:
  "loop_stats (foldl (claude_loop_step dateKey now) l ss) = foldl add_to_totals (loop_stats l) ss"
  by (induction ss arbitrary: l) (simp_all add: claude_loop_step_def)

lemma foldl_claude_loop_weeks:
  "loop_weeks (foldl (claude_loop_step dateKey now) l ss) = foldl (claude_week_step now) (loop_weeks l) ss"
  by (induction ss arbitrary: l) (simp_all add: claude_loop_step_def)

lemma foldl_claude_loop_models:
  "loop_models (foldl (claude_loop_step dateKey now) l ss) = foldl model_step (loop_models l) ss"
  by (induction ss arbitrary: l) (simp_all add: claude_loop_step_def)

lemma foldl_add_to_totals:
  "estimatedCost (foldl add_to_totals st ss) = estimatedCost st + sum_list (map cost ss)
   \<and> totalTokens (totalUsage (foldl add_to_totals st ss))
       = totalTokens (totalUsage st) + sum_list (map (\<lambda>s. totalTokens (usage s)) ss)
   \<and> inputTokens (totalUsage (foldl add_to_totals st ss))
       = inputTokens (totalUsage st) + sum_list (map (\<lambda>s. inputTokens (usage s)) ss)
   \<and> outputTokens (totalUsage (foldl add_to_totals st ss))
       = outputTokens (totalUsage st) + sum_list (map (\<lambda>s. outputTokens (usage s)) ss)
   \<and> cacheWriteTokens (totalUsage (foldl add_to_totals st ss))
       = cacheWriteTokens (totalUsage st) + sum_list (map (\<lambda>s. cacheWriteTokens (usage s)) ss)
   \<and> cacheReadTokens (totalUsage (foldl add_to_totals st ss))
       = cacheReadTokens (totalUsage st) + sum_list (map (\<lambda>s. cacheReadTokens (usage s)) ss)"
  by (induction ss arbitrary: st) (simp_all add: add_to_totals_def)

text \<open>
  The Claude path does what C4 says: the list it returns is the first 200 sessions of
  the newest-first order, and the totals are sums over all scanned sessions.
\<close>

lemma processClaudeSessions_sessions:
  "sessions (processClaudeSessions dateKey now ss st) = take 200 (newest_first ss)"
  by (simp add: processClaudeSessions_def Let_def)

lemma totalSessions_foldl_add_to_totals:
  "totalSessions (foldl add_to_totals st ss) = totalSessions st"
  by (induction ss arbitrary: st) (simp_all add: add_to_totals_def)

lemma processClaudeSessions_totals:
  "estimatedCost (processClaudeSessions dateKey now ss st) = estimatedCost st + sum_list (map cost ss)
   \<and> totalTokens (totalUsage (processClaudeSessions dateKey now ss st))
       = totalTokens (totalUsage st) + sum_list (map (\<lambda>s. totalTokens (usage s)) ss)
   \<and> totalSessions (processClaudeSessions dateKey now ss st) = totalSessions st"
  using foldl_add_to_totals [of st ss]
  by (simp add: processClaudeSessions_def Let_def foldl_claude_loop_totals
      totalSessions_foldl_add_to_totals)

lemma getClaudeProjectStatistics_capped_and_total:
  "length (sessions (getClaudeProjectStatistics dateKey now path ss)) \<le> 200
   \<and> sorted (map (\<lambda>s. - timestamp s) (sessions (getClaudeProjectStatistics dateKey now path ss)))
   \<and> estimatedCost (getClaudeProjectStatistics dateKey now path ss) = sum_list (map cost ss)
   \<and> totalTokens (totalUsage (getClaudeProjectStatistics dateKey now path ss))
       = sum_list (map (\<lambda>s. totalTokens (usage s)) ss)
   \<and> totalSessions (getClaudeProjectStatistics dateKey now path ss) = int (length ss)"
proof -
  have srt: "sorted (map (\<lambda>s. - timestamp s) (take 200 (newest_first ss)))"
    using sorted_newest_first [of ss] by (simp add: take_map [symmetric] sorted_wrt_take)
  show ?thesis
    using srt
    by (simp add: getClaudeProjectStatistics_def processClaudeSessions_sessions
        processClaudeSessions_totals buildEmptyStats_def createUsageData_def)
qed

text \<open>The Codex totals are sums over all the sessions as well.\<close>

lemma processCodexSessions_totals:
  "estimatedCost (processCodexSessions dateKey now ss st) = estimatedCost st + sum_list (map cost ss)
   \<and> totalTokens (totalUsage (processCodexSessions dateKey now ss st))
       = totalTokens (totalUsage st) + sum_list (map (\<lambda>s. totalTokens (usage s)) ss)"
  using foldl_add_to_totals [of st ss]
  by (simp add: processCodexSessions_def Let_def)

text \<open>The Codex path returns every session it was given.\<close>

lemma processCodexSessions_sessions:
  "sessions (processCodexSessions dateKey now ss st) = ss"
  by (simp add: processCodexSessions_def Let_def)

text \<open>
  C4. With 201 scanned Codex sessions the returned list has 201 sessions: the Codex
  path sorts newest-first but never cuts the list to 200, as the Claude path does.
\<close>

theorem codex_sessions_not_capped:
  "length (sessions (getCodexProjectStatistics dateKey now path
      (map (\<lambda>i. one_token_session ''s'' (int i)) [0..<201]))) = 201
   \<and> length (sessions (getClaudeProjectStatistics dateKey now path
      (map (\<lambda>i. one_token_session ''s'' (int i)) [0..<201]))) = 200"
  by (simp add: getCodexProjectStatistics_def processCodexSessions_sessions
      readCodexSessionSummaries_def length_newest_first
      getClaudeProjectStatistics_def processClaudeSessions_sessions)

section \<open>Properties of handleSendMessage\<close>

























text \<open>The order in which the fragments were produced is not kept when streaming is
  off: the \<open>[CONTENT]\<close> text logged before a thinking fragment is sent after it.\<close>

lemma handleSendMessage_buffered_content_comes_last:
  "fst (handleSendMessage parse_empty_object no_deps True False ''claude''
         [(''streamingEnabled'', JBool False)]
         \<lparr> logged = [''[CONTENT] a'', ''[THINKING] t'', ''[CONTENT] b''], rejects = None \<rparr>
         (JObj [(''text'', JStr ''hi'')]) (Some ''r1''))
     = [Envelope (sendToHost ''streamStart'' (JObj []) (Some ''r1'')),
        Envelope (sendToHost ''thinkingChunk'' (JObj [(''delta'', JStr ''t'')]) (Some ''r1'')),
        Envelope (sendToHost ''streamChunk'' (JObj [(''delta'', JStr ''ab'')]) (Some ''r1'')),
        Envelope (sendToHost ''streamEnd'' (JObj []) (Some ''r1''))]"
  by (simp add: handleSendMessage_def try_block_def Let_def provider_of_def is_codex_def
      streaming_on_def thinking_on_def intercept_init_def intercept_def startsWith_def
      on_content_def on_thinking_def strip_one_space_def flush_buffer_def
      chunk_def sid_field_def)

text \<open>A rejection with \<open>null\<close>: the handler is left by a \<open>TypeError\<close> and sends no
  \<open>streamEnd\<close>.\<close>

lemma handleSendMessage_null_rejection:
  "handleSendMessage parse_empty_object no_deps True False ''claude'' []
         \<lparr> logged = [], rejects = Some Nullish \<rparr> (JObj [(''text'', JStr ''hi'')]) (Some ''r1'')
     = ([Envelope (sendToHost ''streamStart'' (JObj []) (Some ''r1''))], False)"
  by (simp add: handleSendMessage_def try_block_def Let_def provider_of_def is_codex_def
      intercept_init_def sid_field_def)

section \<open>The TOML round trip\<close>

subsection \<open>Escaping\<close>










subsection \<open>Decimal integers\<close>












subsection \<open>What splitTomlElements does with a written value\<close>



lemma clean_current [simp]: "clean (st \<lparr> current := c \<rparr>) = clean st"
  by (simp add: clean_def)

lemma depth_current [simp]: "depth (st \<lparr> current := c \<rparr>) = depth st"
  by simp













subsection \<open>Trimming and slicing\<close>






lemma tight_wrap: "\<not> is_space c \<Longrightarrow> \<not> is_space d \<Longrightarrow> tight (c # mid @ [d])"
  by (simp add: tight_def)








subsection \<open>Splitting a written list at its commas\<close>



subsection \<open>Keys\<close>









subsection \<open>The shape of a written value\<close>





subsection \<open>Reading a written value\<close>









lemma puts_None: "puts es None = None"
  by (induction es) (simp_all add: puts_def)












subsection \<open>Lines\<close>
















subsection \<open>Sections\<close>












subsection \<open>What the sections do to the result\<close>


























subsection \<open>The document\<close>










subsection \<open>The same configuration\<close>










end
